theory Spec2Isabelle
  imports Complex_Main "HOL-Library.Word"
begin

section \<open>Data model of the path tracer\<close>

text \<open>
  The program computes on C++ \<open>float\<close> values. They are idealised here as real
  numbers, so the embedding covers the arithmetic structure of the code and not rounding,
  overflow to infinity or NaN propagation. Where the real-number reading would silently
  differ from C, the case is written out: the square root of a negative number in the
  gamma step, and the quotient by a zero-length direction in the sphere test. A sphere
  has a positive radius; the statements about the normal of a hit assume it.

  Real numbers have neither infinities nor NaN. For the claim that speaks of NaN the
  sums and products of the integrator are therefore modelled a second time, on float
  values with overflow to infinity and with NaN (\<open>color_float\<close> below).
\<close>

subsection \<open>Vec3\<close>

text \<open>
  Modelled from the spec: \<open>vec3.h\<close> (class \<open>Vec3\<close>) is missing from the sources. A
  vector has three real components; it serves as position, direction and linear colour.
\<close>

datatype vec3 = Vec3 (vx: real) (vy: real) (vz: real)

text \<open>
  Modelled from the spec: the operators \<open>+\<close>, \<open>-\<close> and \<open>*\<close> of the missing
  \<open>vec3.h\<close> on two vectors work component by component.
\<close>

instantiation vec3 :: "{plus, minus, times}"
begin

definition plus_vec3 :: "vec3 \<Rightarrow> vec3 \<Rightarrow> vec3" where
  "plus_vec3 a b = Vec3 (vx a + vx b) (vy a + vy b) (vz a + vz b)"

definition minus_vec3 :: "vec3 \<Rightarrow> vec3 \<Rightarrow> vec3" where
  "minus_vec3 a b = Vec3 (vx a - vx b) (vy a - vy b) (vz a - vz b)"

definition times_vec3 :: "vec3 \<Rightarrow> vec3 \<Rightarrow> vec3" where
  "times_vec3 a b = Vec3 (vx a * vx b) (vy a * vy b) (vz a * vz b)"

instance ..

end

text \<open>Modelled from the spec: the missing product of a scalar and a vector.\<close>

definition scale :: "real \<Rightarrow> vec3 \<Rightarrow> vec3" where
  "scale k a = Vec3 (k * vx a) (k * vy a) (k * vz a)"

text \<open>Modelled from the spec: the missing quotient of a vector by a scalar.\<close>

definition divide_by :: "vec3 \<Rightarrow> real \<Rightarrow> vec3" where
  "divide_by a k = Vec3 (vx a / k) (vy a / k) (vz a / k)"

text \<open>Modelled from the spec: the missing dot product.\<close>

definition dot :: "vec3 \<Rightarrow> vec3 \<Rightarrow> real" where
  "dot a b = vx a * vx b + vy a * vy b + vz a * vz b"

text \<open>
  Modelled from the spec: the missing \<open>operator[]\<close> of \<open>Vec3\<close>, component 0, 1 or 2
  of a vector. The program uses these three indices only.
\<close>

definition component :: "vec3 \<Rightarrow> nat \<Rightarrow> real" where
  "component a i = (if i = 0 then vx a else if i = 1 then vy a else vz a)"

text \<open>A colour whose three components are non-negative.\<close>

definition nonneg :: "vec3 \<Rightarrow> bool" where
  "nonneg a \<longleftrightarrow> 0 \<le> vx a \<and> 0 \<le> vy a \<and> 0 \<le> vz a"

subsection \<open>Ray and Hit\<close>

text \<open>
  Modelled from the spec: \<open>ray.h\<close> (class \<open>Ray\<close>) is missing from the sources. A ray
  has an origin and a direction, which need not have length one.
\<close>

record ray =
  origin :: vec3
  direction :: vec3

text \<open>Modelled from the spec: the missing \<open>pointAt(t) = origin + t * direction\<close>.\<close>

definition pointAt :: "ray \<Rightarrow> real \<Rightarrow> vec3" where
  "pointAt r k = origin r + scale k (direction r)"

text \<open>
  Modelled from the spec: \<open>hit.h\<close> (struct \<open>Hit\<close>) is missing from the sources. A hit
  carries the parametric distance \<open>t\<close>, the hit point and the surface normal there.
\<close>

record hit =
  hit_t :: real
  point :: vec3
  normal :: vec3

subsection \<open>Material, object and collection interfaces\<close>

text \<open>
  \<open>material.h\<close> and \<open>objcollection.h\<close> are not part of the available sources;
  \<open>color\<close> uses these classes through their methods only, so they are taken as
  parameters: a material is the pair of its methods \<open>emit\<close> and \<open>scatter\<close>,
  an object gives its material, a collection answers \<open>getHit\<close> and \<open>getObject\<close>.
  The collection is passed by \<open>const\<close> reference and the spec has the scene read-only
  and \<open>emit\<close> free of effects, so \<open>getHit\<close>, \<open>getObject\<close>, \<open>getMaterial\<close> and
  \<open>emit\<close> are pure functions.

  The scattering models draw random numbers from the global generator \<open>drand48\<close>.
  The generator's state is the type parameter \<open>'s\<close>, passed through \<open>scatter\<close>
  explicitly and returned updated. \<open>scatter\<close> returns \<open>None\<close> for the C++ result
  \<open>false\<close> and the two output parameters (attenuation, scattered ray) otherwise.
  \<open>getHit\<close> likewise returns \<open>None\<close> for \<open>false\<close> and the \<open>IndexedHit\<close> pair otherwise.
\<close>

record 's material =
  emit :: "real \<Rightarrow> real \<Rightarrow> vec3 \<Rightarrow> vec3"
  scatter :: "ray \<Rightarrow> hit \<Rightarrow> 's \<Rightarrow> (vec3 \<times> ray) option \<times> 's"

record 's object =
  getMaterial :: "'s material"

record 's ObjCollection =
  getHit :: "ray \<Rightarrow> real \<Rightarrow> real \<Rightarrow> (nat \<times> hit) option"
  getObject :: "nat \<Rightarrow> 's object"

text \<open>\<open>FLT_MAX\<close> of \<^verbatim>\<open>cfloat\<close>: the largest finite IEEE single-precision value.\<close>

definition FLT_MAX :: real where
  "FLT_MAX = 340282346638528859811704183484516925440"

section \<open>The integrator\<close>

text \<open>
  \<open>color\<close> of \<open>main.cc\<close>. The depth \<open>n\<close> is a C++ \<open>int\<close>; it is only incremented
  below 25, so it never overflows and is modelled as an unbounded integer.
\<close>

function color :: "ray \<Rightarrow> 's ObjCollection \<Rightarrow> int \<Rightarrow> 's \<Rightarrow> vec3 \<times> 's" where
  "color r world n s =
     (case getHit world r 0.001 FLT_MAX of
        Some indexedHit \<Rightarrow>
          (let index = fst indexedHit;
               hit = snd indexedHit;
               material = getMaterial (getObject world index);
               emission = emit material 0 0 (Vec3 0 0 0)
           in if n < 25 then
                (case scatter material r hit s of
                   (Some (attenuation, scattered), s') \<Rightarrow>
                     (case color scattered world (n + 1) s' of
                        (c, s'') \<Rightarrow> (emission + attenuation * c, s''))
                 | (None, s') \<Rightarrow> (emission, s'))
              else (emission, s))
      | None \<Rightarrow> (Vec3 0 0 0, s))"
  by pat_completeness auto
termination
  by (relation "measure (\<lambda>(r, world, n, s). nat (25 - n))") auto

text \<open>
  The number of nested recursive calls that \<open>color r world n s\<close> makes: the same
  case analysis as \<open>color\<close>, counting one for the recursive call in the scatter
  branch and nothing in the branches that return without recursion.
\<close>

function color_depth :: "ray \<Rightarrow> 's ObjCollection \<Rightarrow> int \<Rightarrow> 's \<Rightarrow> nat" where
  "color_depth r world n s =
     (case getHit world r 0.001 FLT_MAX of
        Some indexedHit \<Rightarrow>
          (let index = fst indexedHit;
               hit = snd indexedHit;
               material = getMaterial (getObject world index)
           in if n < 25 then
                (case scatter material r hit s of
                   (Some (attenuation, scattered), s') \<Rightarrow>
                     Suc (color_depth scattered world (n + 1) s')
                 | (None, s') \<Rightarrow> 0)
              else 0)
      | None \<Rightarrow> 0)"
  by pat_completeness auto
termination
  by (relation "measure (\<lambda>(r, world, n, s). nat (25 - n))") auto

text \<open>
  The material contract of the spec: every emitted colour and the attenuation of every
  successful scatter are component-wise non-negative.
\<close>

definition materialContract :: "'s material \<Rightarrow> bool" where
  "materialContract m \<longleftrightarrow>
     (\<forall>u v p. nonneg (emit m u v p)) \<and>
     (\<forall>r h s a sc s'. scatter m r h s = (Some (a, sc), s') \<longrightarrow> nonneg a)"

section \<open>Sphere and scene collection\<close>

text \<open>
  Modelled from the spec: \<open>sphere.h\<close> (class \<open>Sphere\<close> and its intersection test) is
  missing from the sources. A sphere is an object (it gives its material) with a centre and
  a radius. The test solves \<open>|O + tD - C|\<^sup>2 = r\<^sup>2\<close> for the ray \<open>O + tD\<close>: a negative
  discriminant is no hit; otherwise the smaller root is accepted when it lies inside
  \<open>(tMin, tMax)\<close>, else the larger root, else there is no hit. An accepted hit carries the
  distance, the point on the ray and the outward normal \<open>(point - center) / radius\<close>.

  For a ray whose direction has length zero the quadratic has no roots (the quotient is
  \<open>0/0\<close>, which compares false with every bound in C); this is the explicit case
  \<open>a = 0\<close>.
\<close>

record 's Sphere = "'s object" +
  center :: vec3
  radius :: real

text \<open>
  Modelled from the spec: the discriminant \<open>b\<^sup>2 - 4ac\<close> of the quadratic of the missing
  intersection test, with \<open>a = D \<cdot> D\<close>, \<open>b = 2 (O - C) \<cdot> D\<close> and
  \<open>c = |O - C|\<^sup>2 - r\<^sup>2\<close>.
\<close>

definition discriminant :: "('s, 'z) Sphere_scheme \<Rightarrow> ray \<Rightarrow> real" where
  "discriminant sp r =
     (let oc = origin r - center sp;
          a = dot (direction r) (direction r);
          b = 2 * dot oc (direction r);
          c = dot oc oc - radius sp * radius sp
      in b * b - 4 * a * c)"

text \<open>Modelled from the spec: the smaller root \<open>(-b - sqrt(discriminant)) / 2a\<close>.\<close>

definition smallerRoot :: "('s, 'z) Sphere_scheme \<Rightarrow> ray \<Rightarrow> real" where
  "smallerRoot sp r =
     (let oc = origin r - center sp;
          a = dot (direction r) (direction r);
          b = 2 * dot oc (direction r)
      in (- b - sqrt (discriminant sp r)) / (2 * a))"

text \<open>Modelled from the spec: the larger root \<open>(-b + sqrt(discriminant)) / 2a\<close>.\<close>

definition largerRoot :: "('s, 'z) Sphere_scheme \<Rightarrow> ray \<Rightarrow> real" where
  "largerRoot sp r =
     (let oc = origin r - center sp;
          a = dot (direction r) (direction r);
          b = 2 * dot oc (direction r)
      in (- b + sqrt (discriminant sp r)) / (2 * a))"

text \<open>
  Modelled from the spec: the hit record that the missing test fills in for an accepted
  distance.
\<close>

definition hitAt :: "('s, 'z) Sphere_scheme \<Rightarrow> ray \<Rightarrow> real \<Rightarrow> hit" where
  "hitAt sp r k =
     \<lparr>hit_t = k, point = pointAt r k,
      normal = divide_by (pointAt r k - center sp) (radius sp)\<rparr>"

text \<open>Modelled from the spec: the missing intersection test \<open>Sphere::hit\<close>.\<close>

definition hitSphere :: "('s, 'z) Sphere_scheme \<Rightarrow> ray \<Rightarrow> real \<Rightarrow> real \<Rightarrow> hit option" where
  "hitSphere sp r tMin tMax =
     (if discriminant sp r < 0 then None
      else if dot (direction r) (direction r) = 0 then None
      else if tMin < smallerRoot sp r \<and> smallerRoot sp r < tMax
        then Some (hitAt sp r (smallerRoot sp r))
      else if tMin < largerRoot sp r \<and> largerRoot sp r < tMax
        then Some (hitAt sp r (largerRoot sp r))
      else None)"

text \<open>
  Modelled from the spec: \<open>objcollection.h\<close> (class \<open>ObjCollection\<close>) is missing from the
  sources. The nearest-hit query scans the primitives in order; \<open>closest\<close> starts at
  \<open>tMax\<close> and is narrowed to the distance of every accepted hit, \<open>best\<close> is the index
  and hit record accepted last. \<open>ObjCollection_of\<close> is the collection holding the given
  primitives in insertion order; \<open>getObject\<close> is meant for the indices that \<open>getHit\<close>
  returns, which are below the number of primitives.
\<close>

fun closestSoFar ::
  "('s, 'z) Sphere_scheme list \<Rightarrow> ray \<Rightarrow> real \<Rightarrow> real \<Rightarrow> nat \<Rightarrow> (nat \<times> hit) option
     \<Rightarrow> (nat \<times> hit) option" where
  "closestSoFar [] r tMin closest i best = best"
| "closestSoFar (ob # obs) r tMin closest i best =
     (case hitSphere ob r tMin closest of
        Some h \<Rightarrow> closestSoFar obs r tMin (hit_t h) (i + 1) (Some (i, h))
      | None \<Rightarrow> closestSoFar obs r tMin closest (i + 1) best)"

text \<open>
  Modelled from the spec: the missing \<open>ObjCollection::getHit\<close>, the sweep started with
  the whole interval and nothing found.
\<close>

definition nearestHit ::
  "('s, 'z) Sphere_scheme list \<Rightarrow> ray \<Rightarrow> real \<Rightarrow> real \<Rightarrow> (nat \<times> hit) option" where
  "nearestHit objs r tMin tMax = closestSoFar objs r tMin tMax 0 None"

text \<open>
  Modelled from the spec: the missing class \<open>ObjCollection\<close> holding the given
  primitives, as the interface that \<open>color\<close> takes.
\<close>

definition ObjCollection_of :: "'s Sphere list \<Rightarrow> 's ObjCollection" where
  "ObjCollection_of objs =
     \<lparr>getHit = nearestHit objs,
      getObject = (\<lambda>i. object.truncate (objs ! i))\<rparr>"

section \<open>The per-pixel driver\<close>

text \<open>
  The body of the pixel loop of \<open>writeImage\<close>. \<open>camera.h\<close> is not part of the
  sources: the camera is the parameter \<open>cam\<close> with its method \<open>getRay\<close>, which samples
  the lens and so passes the generator state along. The library function \<open>drand48\<close> is
  the parameter \<open>drand48\<close>: it returns a number and the next generator state. The
  image size and sample count are the local constants of \<open>writeImage\<close>.
\<close>

record 's Camera =
  getRay :: "real \<Rightarrow> real \<Rightarrow> 's \<Rightarrow> ray \<times> 's"

definition nx :: int where "nx = 1920"
definition ny :: int where "ny = 1080"
definition ns :: int where "ns = 100"

text \<open>One iteration of the sample loop, up to the call of \<open>color\<close>.\<close>

definition sample ::
  "('s \<Rightarrow> real \<times> 's) \<Rightarrow> 's Camera \<Rightarrow> 's ObjCollection \<Rightarrow> int \<Rightarrow> int \<Rightarrow> 's \<Rightarrow> vec3 \<times> 's" where
  "sample drand48 cam world x y st =
     (case drand48 st of (d1, st1) \<Rightarrow>
        let u = (real_of_int x + d1) / real_of_int nx in
        case drand48 st1 of (d2, st2) \<Rightarrow>
          let v = (real_of_int y + d2) / real_of_int ny in
          case getRay cam u v st2 of (r, st3) \<Rightarrow> color r world 0 st3)"

text \<open>\<open>for (int s = 0; s < ns; ++s) px += color(r, world, 0)\<close>.\<close>

function sampleLoop ::
  "('s \<Rightarrow> real \<times> 's) \<Rightarrow> 's Camera \<Rightarrow> 's ObjCollection \<Rightarrow> int \<Rightarrow> int \<Rightarrow> int \<Rightarrow> vec3 \<Rightarrow> 's
     \<Rightarrow> vec3 \<times> 's" where
  "sampleLoop drand48 cam world x y s px st =
     (if s < ns then
        (case sample drand48 cam world x y st of
           (c, st') \<Rightarrow> sampleLoop drand48 cam world x y (s + 1) (px + c) st')
      else (px, st))"
  by pat_completeness auto
termination
  by (relation "measure (\<lambda>(drand48, cam, world, x, y, s, px, st). nat (ns - s))") auto

text \<open>
  The radiance values that the iterations \<open>s, s + 1, \<dots>, ns - 1\<close> of the loop add to
  \<open>px\<close>, in order: the per-sample values of the pixel.
\<close>

function sampleValues ::
  "('s \<Rightarrow> real \<times> 's) \<Rightarrow> 's Camera \<Rightarrow> 's ObjCollection \<Rightarrow> int \<Rightarrow> int \<Rightarrow> int \<Rightarrow> 's \<Rightarrow> vec3 list" where
  "sampleValues drand48 cam world x y s st =
     (if s < ns then
        (case sample drand48 cam world x y st of
           (c, st') \<Rightarrow> c # sampleValues drand48 cam world x y (s + 1) st')
      else [])"
  by pat_completeness auto
termination
  by (relation "measure (\<lambda>(drand48, cam, world, x, y, s, st). nat (ns - s))") auto

text \<open>
  \<open>fmin(255.0, 255.00*sqrt(c))\<close>. In C the square root of a negative number is NaN and
  \<open>fmin\<close> returns its other argument when one is NaN; this is the first case.
\<close>

definition gammaCorrect :: "real \<Rightarrow> real" where
  "gammaCorrect c = (if c < 0 then 255 else min 255 (255 * sqrt c))"

text \<open>
  The conversion \<open>(unsigned char)(float)\<close> drops the fractional part. It is defined in C
  for values whose integral part fits into a byte, which holds for every value of
  \<open>gammaCorrect\<close>.
\<close>

definition to_uchar :: "real \<Rightarrow> 8 word" where
  "to_uchar c = word_of_int (if 0 \<le> c then \<lfloor>c\<rfloor> else \<lceil>c\<rceil>)"

text \<open>
  The three bytes \<open>image[y][x][0..2]\<close> written for one pixel, and the generator state
  after its samples.
\<close>

definition renderPixel ::
  "('s \<Rightarrow> real \<times> 's) \<Rightarrow> 's Camera \<Rightarrow> 's ObjCollection \<Rightarrow> int \<Rightarrow> int \<Rightarrow> 's \<Rightarrow> 8 word list \<times> 's" where
  "renderPixel drand48 cam world x y st =
     (case sampleLoop drand48 cam world x y 0 (Vec3 0 0 0) st of
        (acc, st') \<Rightarrow>
          let avg = divide_by acc (real_of_int ns);
              px = Vec3 (gammaCorrect (component avg 0))
                        (gammaCorrect (component avg 1))
                        (gammaCorrect (component avg 2))
          in ([to_uchar (component px 2), to_uchar (component px 1), to_uchar (component px 0)],
              st'))"

section \<open>The integrator on float values\<close>

text \<open>
  A value of the C++ type \<open>float\<close> as far as overflow and NaN are concerned: a finite
  number, plus or minus infinity, or NaN. Finite results are kept exact (rounding to 24
  bits is left out); signed zeros are not distinguished.
\<close>

datatype fval = Fin real | PInf | NInf | NaN

text \<open>
  The result of an operation whose exact value is \<open>x\<close>: beyond the largest finite
  float it overflows to the infinity of its sign.
\<close>

definition fl :: "real \<Rightarrow> fval" where
  "fl x = (if FLT_MAX < x then PInf else if x < - FLT_MAX then NInf else Fin x)"

text \<open>
  IEEE 754 addition and multiplication: NaN is contagious, \<open>inf - inf\<close> and
  \<open>0 * inf\<close> are NaN, an infinity otherwise wins with the sign of the result, and two
  finite operands give the exact result unless it overflows.
\<close>

instantiation fval :: "{plus, times}"
begin

fun plus_fval :: "fval \<Rightarrow> fval \<Rightarrow> fval" where
  "plus_fval NaN b = NaN"
| "plus_fval a NaN = NaN"
| "plus_fval PInf NInf = NaN"
| "plus_fval NInf PInf = NaN"
| "plus_fval PInf b = PInf"
| "plus_fval a PInf = PInf"
| "plus_fval NInf b = NInf"
| "plus_fval a NInf = NInf"
| "plus_fval (Fin a) (Fin b) = fl (a + b)"

fun times_fval :: "fval \<Rightarrow> fval \<Rightarrow> fval" where
  "times_fval NaN b = NaN"
| "times_fval a NaN = NaN"
| "times_fval PInf PInf = PInf"
| "times_fval PInf NInf = NInf"
| "times_fval NInf PInf = NInf"
| "times_fval NInf NInf = PInf"
| "times_fval PInf (Fin b) = (if b = 0 then NaN else if 0 < b then PInf else NInf)"
| "times_fval NInf (Fin b) = (if b = 0 then NaN else if 0 < b then NInf else PInf)"
| "times_fval (Fin a) PInf = (if a = 0 then NaN else if 0 < a then PInf else NInf)"
| "times_fval (Fin a) NInf = (if a = 0 then NaN else if 0 < a then NInf else PInf)"
| "times_fval (Fin a) (Fin b) = fl (a * b)"

instance ..

end

text \<open>A \<open>Vec3\<close> of float values, with the component-wise sum and product.\<close>

datatype fvec3 = FVec3 (fx: fval) (fy: fval) (fz: fval)

instantiation fvec3 :: "{plus, times}"
begin

definition plus_fvec3 :: "fvec3 \<Rightarrow> fvec3 \<Rightarrow> fvec3" where
  "plus_fvec3 a b = FVec3 (fx a + fx b) (fy a + fy b) (fz a + fz b)"

definition times_fvec3 :: "fvec3 \<Rightarrow> fvec3 \<Rightarrow> fvec3" where
  "times_fvec3 a b = FVec3 (fx a * fx b) (fy a * fy b) (fz a * fz b)"

instance ..

end











section \<open>The parallel render loop\<close>

text \<open>
  \<open>main\<close> sets four threads and \<open>writeImage\<close> runs the loop over the rows under
  \<open>#pragma omp parallel for\<close>. The 1080 rows are dealt out in four contiguous blocks
  of 270 in loop order (\<open>y = 1079\<close> first); every thread walks its rows in order and
  each row from \<open>x = 0\<close>. \<open>pixelOf t i\<close> is the \<open>i\<close>-th pixel \<open>(x, y)\<close> of thread
  \<open>t\<close>, and \<open>quota\<close> the number of pixels of a thread.
\<close>

definition threads :: nat where "threads = 4"

definition rowsPerThread :: nat where "rowsPerThread = nat ny div threads"

definition quota :: nat where "quota = rowsPerThread * nat nx"

definition pixelOf :: "nat \<Rightarrow> nat \<Rightarrow> int \<times> int" where
  "pixelOf t i =
     (int (i mod nat nx), ny - 1 - int (rowsPerThread * t + i div nat nx))"

text \<open>
  One run of the parallel loop. All threads draw from the one generator of
  \<open>drand48\<close>, whose state \<open>st\<close> is therefore shared. The schedule lists, in the order
  in which it happens, which thread renders its next pixel; a thread that has finished
  its pixels does nothing. \<open>finished t\<close> counts the pixels that thread \<open>t\<close> has
  rendered, and \<open>img (y, x)\<close> holds the three bytes stored in \<open>image[y][x]\<close>.
  A pixel is rendered in one step: runs in which the draws of two threads alternate
  within a pixel exist as well and are not needed here.
\<close>

fun renderSchedule ::
  "('s \<Rightarrow> real \<times> 's) \<Rightarrow> 's Camera \<Rightarrow> 's ObjCollection \<Rightarrow> nat list \<Rightarrow> (nat \<Rightarrow> nat)
     \<Rightarrow> (int \<times> int \<Rightarrow> 8 word list option) \<Rightarrow> 's
     \<Rightarrow> (int \<times> int \<Rightarrow> 8 word list option) \<times> 's" where
  "renderSchedule drand48 cam world [] finished img st = (img, st)"
| "renderSchedule drand48 cam world (t # schedule) finished img st =
     (if t < threads \<and> finished t < quota then
        (case pixelOf t (finished t) of
           (x, y) \<Rightarrow>
             (case renderPixel drand48 cam world x y st of
                (bytes, st') \<Rightarrow>
                  renderSchedule drand48 cam world schedule
                    (finished(t := Suc (finished t)))
                    (img((y, x) := Some bytes)) st'))
      else renderSchedule drand48 cam world schedule finished img st)"

text \<open>
  The image after a run from the generator state \<open>seed\<close>: no thread has rendered
  anything and no byte is stored at the start.
\<close>

definition render ::
  "('s \<Rightarrow> real \<times> 's) \<Rightarrow> 's Camera \<Rightarrow> 's ObjCollection \<Rightarrow> 's \<Rightarrow> nat list
     \<Rightarrow> (int \<times> int \<Rightarrow> 8 word list option)" where
  "render drand48 cam world seed schedule =
     fst (renderSchedule drand48 cam world schedule (\<lambda>t. 0) (\<lambda>p. None) seed)"

section \<open>Example materials and scenes\<close>

text \<open>
  Modelled from the spec: \<open>diffuselight.h\<close> is missing from the sources. A diffuse light
  emits its configured colour regardless of the coordinates and never scatters.
\<close>

definition DiffuseLight :: "vec3 \<Rightarrow> 's material" where
  "DiffuseLight emitted = \<lparr>emit = (\<lambda>u v p. emitted), scatter = (\<lambda>r h s. (None, s))\<rparr>"

text \<open>
  The scattering materials of the repository are missing from the sources and the spec
  leaves their guards open, so the examples use two small materials of their own, written
  against the same interface. \<open>backScatter albedo\<close> sends every ray back from the hit
  point along the surface normal with attenuation \<open>albedo\<close>, emits nothing, and draws
  one random number per call (the generator state is a counter of draws).
  \<open>positionLight\<close> emits the point it is asked about and never scatters: its emission
  depends on the location.
\<close>

definition backScatter :: "vec3 \<Rightarrow> nat material" where
  "backScatter albedo =
     \<lparr>emit = (\<lambda>u v p. Vec3 0 0 0),
      scatter = (\<lambda>r h s. (Some (albedo, \<lparr>origin = point h, direction = normal h\<rparr>), Suc s))\<rparr>"

definition positionLight :: "nat material" where
  "positionLight = \<lparr>emit = (\<lambda>u v p. p), scatter = (\<lambda>r h s. (None, s))\<rparr>"

text \<open>
  Modelled from the spec: the missing constructor \<open>Sphere(material, center, radius)\<close>.
\<close>

definition Sphere :: "'s material \<Rightarrow> vec3 \<Rightarrow> real \<Rightarrow> 's Sphere" where
  "Sphere m c rad = \<lparr>getMaterial = m, center = c, radius = rad\<rparr>"

text \<open>The ray of the spec's intersection example: from \<open>(0,0,5)\<close> towards \<open>-z\<close>.\<close>

definition downRay :: ray where
  "downRay = \<lparr>origin = Vec3 0 0 5, direction = Vec3 0 0 (- 1)\<rparr>"

text \<open>
  A scattering unit sphere at the origin and a light of radius 1 around \<open>(0,0,10)\<close>:
  \<open>downRay\<close> hits the first at \<open>t = 4\<close> and is sent back up into the light.
\<close>

definition litScene :: "nat Sphere list" where
  "litScene =
     [Sphere (backScatter (Vec3 (8/10) (8/10) (8/10))) (Vec3 0 0 0) 1,
      Sphere (DiffuseLight (Vec3 3 3 3)) (Vec3 0 0 10) 1]"

text \<open>Two overlapping unit spheres on the \<open>z\<close> axis, the farther one first.\<close>

definition overlapScene :: "nat Sphere list" where
  "overlapScene =
     [Sphere (DiffuseLight (Vec3 1 0 0)) (Vec3 0 0 0) 1,
      Sphere (DiffuseLight (Vec3 0 1 0)) (Vec3 0 0 1) 1]"

text \<open>
  A collection that answers the nearest-hit query of \<open>world\<close> on the interval
  \<open>(0.001, FLT_MAX)\<close> and reports no hit on every other interval.
\<close>

definition onlyFixedInterval :: "'s ObjCollection \<Rightarrow> 's ObjCollection" where
  "onlyFixedInterval world =
     world\<lparr>getHit := (\<lambda>r tMin tMax.
        if tMin = 0.001 \<and> tMax = FLT_MAX then getHit world r tMin tMax else None)\<rparr>"

text \<open>A generator that always returns one half, and a camera that always returns \<open>downRay\<close>.\<close>

definition halfRand :: "nat \<Rightarrow> real \<times> nat" where
  "halfRand s = (1/2, s)"

definition fixedCamera :: "nat Camera" where
  "fixedCamera = \<lparr>getRay = (\<lambda>u v s. (downRay, s))\<rparr>"

text \<open>
  Two scattering unit spheres facing each other on the \<open>z\<close> axis, and the ray from the
  origin towards the upper one: every bounce is sent back to the other sphere.
\<close>

definition facingScene :: "nat Sphere list" where
  "facingScene =
     [Sphere (backScatter (Vec3 1 1 1)) (Vec3 0 0 (- 2)) 1,
      Sphere (backScatter (Vec3 1 1 1)) (Vec3 0 0 2) 1]"

definition upRay :: ray where
  "upRay = \<lparr>origin = Vec3 0 0 0, direction = Vec3 0 0 1\<rparr>"

text \<open>A ray from \<open>(0,0,5)\<close> towards \<open>+x\<close>, which passes every example sphere.\<close>

definition sideRay :: ray where
  "sideRay = \<lparr>origin = Vec3 0 0 5, direction = Vec3 1 0 0\<rparr>"

text \<open>A ray from \<open>(5,0,0)\<close> towards \<open>-x\<close>, which meets the unit sphere at \<open>(1,0,0)\<close>.\<close>

definition leftRay :: ray where
  "leftRay = \<lparr>origin = Vec3 5 0 0, direction = Vec3 (- 1) 0 0\<rparr>"

text \<open>A light whose colour shows the effect of the square root and of the clamp.\<close>

definition dimLight :: "nat Sphere list" where
  "dimLight = [Sphere (DiffuseLight (Vec3 (1/4) 1 4)) (Vec3 0 0 0) 1]"

text \<open>
  The unit sphere at the origin, once with the location-dependent light and once with a
  light that emits black everywhere.
\<close>

definition positionScene :: "nat Sphere list" where
  "positionScene = [Sphere positionLight (Vec3 0 0 0) 1]"

definition darkScene :: "nat Sphere list" where
  "darkScene = [Sphere (DiffuseLight (Vec3 0 0 0)) (Vec3 0 0 0) 1]"

text \<open>
  Three spheres that a path visits in turn: \<open>downRay\<close> hits the unit sphere at the
  origin, which absorbs everything it would pass on (attenuation 0) and sends the ray
  up to \<open>(0,0,6)\<close> on the second sphere; that one passes light on with attenuation
  \<open>10\<^sup>3\<^sup>0\<close> and sends the ray along its normal to the light, which emits \<open>10\<^sup>3\<^sup>0\<close>.
  All colours are non-negative and finite.
\<close>

definition overflowScene :: "nat Sphere list" where
  "overflowScene =
     [Sphere (backScatter (Vec3 0 0 0)) (Vec3 0 0 0) 1,
      Sphere (backScatter (Vec3 (10 ^ 30) (10 ^ 30) (10 ^ 30))) (Vec3 3 0 10) 5,
      Sphere (DiffuseLight (Vec3 (10 ^ 30) (10 ^ 30) (10 ^ 30))) (Vec3 (- 9) 0 (- 6)) 5]"

text \<open>
  A generator whose state counts the draws: the first 200 draws return 0 and all later
  ones one half.
\<close>

definition stepRand :: "nat \<Rightarrow> real \<times> nat" where
  "stepRand s = (if s < 200 then 0 else 1/2, Suc s)"

text \<open>
  A camera at \<open>(0,0,5)\<close> that looks down the \<open>z\<close> axis and turns its ray sideways
  with \<open>u\<close>; it draws no random number.
\<close>

definition panCamera :: "nat Camera" where
  "panCamera =
     \<lparr>getRay = (\<lambda>u v s. (\<lparr>origin = Vec3 0 0 5, direction = Vec3 (3840 * u) 0 (- 1)\<rparr>, s))\<rparr>"

section \<open>Basic facts\<close>

declare color.simps [simp del]
declare color_depth.simps [simp del]
declare sampleLoop.simps [simp del]
declare sampleValues.simps [simp del]

lemmas vec3_ops =
  dot_def plus_vec3_def minus_vec3_def times_vec3_def scale_def divide_by_def pointAt_def

lemmas sphere_ops =
  hitSphere_def discriminant_def smallerRoot_def largerRoot_def hitAt_def Sphere_def

lemmas collection_ops = ObjCollection_of_def nearestHit_def object.truncate_def

lemma nonneg_plus: "nonneg a \<Longrightarrow> nonneg b \<Longrightarrow> nonneg (a + b)"
  by (simp add: nonneg_def plus_vec3_def)

lemma nonneg_times: "nonneg a \<Longrightarrow> nonneg b \<Longrightarrow> nonneg (a * b)"
  by (simp add: nonneg_def times_vec3_def)

lemma nonneg_zero: "nonneg (Vec3 0 0 0)"
  by (simp add: nonneg_def)

lemma component_plus: "component (a + b) k = component a k + component b k"
  by (simp add: component_def plus_vec3_def)

lemma component_divide_by: "component (divide_by a d) k = component a k / d"
  by (simp add: component_def divide_by_def)

lemma component_zero: "component (Vec3 0 0 0) k = 0"
  by (simp add: component_def)

subsection \<open>The branches of the integrator\<close>

lemma color_miss:
  "getHit world r 0.001 FLT_MAX = None \<Longrightarrow> color r world n s = (Vec3 0 0 0, s)"
  by (subst color.simps) (simp only: option.case)

lemma color_hit_unfold:
  assumes "getHit world r 0.001 FLT_MAX = Some (index, h)"
  shows "color r world n s =
     (if n < 25 then
        (case scatter (getMaterial (getObject world index)) r h s of
           (Some (attenuation, scattered), s') \<Rightarrow>
             (emit (getMaterial (getObject world index)) 0 0 (Vec3 0 0 0)
                + attenuation * fst (color scattered world (n + 1) s'),
              snd (color scattered world (n + 1) s'))
         | (None, s') \<Rightarrow> (emit (getMaterial (getObject world index)) 0 0 (Vec3 0 0 0), s'))
      else (emit (getMaterial (getObject world index)) 0 0 (Vec3 0 0 0), s))"
  by (subst color.simps)
     (simp only: assms Let_def fst_conv snd_conv option.case split: prod.splits option.splits,
      simp)

lemma color_cap:
  "getHit world r 0.001 FLT_MAX = Some (index, h) \<Longrightarrow> \<not> n < 25 \<Longrightarrow>
   color r world n s = (emit (getMaterial (getObject world index)) 0 0 (Vec3 0 0 0), s)"
  by (simp add: color_hit_unfold)

lemma color_absorbed:
  "getHit world r 0.001 FLT_MAX = Some (index, h) \<Longrightarrow> n < 25 \<Longrightarrow>
   scatter (getMaterial (getObject world index)) r h s = (None, s') \<Longrightarrow>
   color r world n s = (emit (getMaterial (getObject world index)) 0 0 (Vec3 0 0 0), s')"
  by (simp add: color_hit_unfold)

lemma color_scattered:
  "getHit world r 0.001 FLT_MAX = Some (index, h) \<Longrightarrow> n < 25 \<Longrightarrow>
   scatter (getMaterial (getObject world index)) r h s = (Some (attenuation, scattered), s') \<Longrightarrow>
   color r world n s =
     (emit (getMaterial (getObject world index)) 0 0 (Vec3 0 0 0)
        + attenuation * fst (color scattered world (n + 1) s'),
      snd (color scattered world (n + 1) s'))"
  by (simp add: color_hit_unfold)

text \<open>
  Induction along the recursive calls of \<open>color\<close> in a fixed collection: a property
  holds for every call when it holds for a call as soon as it holds for the recursive call
  that this call makes.
\<close>

lemma color_call_induct [case_names step]:
  assumes step: "\<And>r n s.
     (\<And>index h a sc s'. getHit world r 0.001 FLT_MAX = Some (index, h) \<Longrightarrow> n < 25 \<Longrightarrow>
        scatter (getMaterial (getObject world index)) r h s = (Some (a, sc), s') \<Longrightarrow>
        P sc (n + 1) s') \<Longrightarrow> P r n s"
  shows "P r (n::int) s"
proof (induction "nat (25 - n)" arbitrary: r n s rule: less_induct)
  case less
  show ?case
  proof (rule step)
    fix index h a sc s'
    assume "n < 25"
    then have "nat (25 - (n + 1)) < nat (25 - n)" by simp
    then show "P sc (n + 1) s'" by (rule less)
  qed
qed

subsection \<open>Recursion depth\<close>

lemma color_depth_miss:
  "getHit world r 0.001 FLT_MAX = None \<Longrightarrow> color_depth r world n s = 0"
  by (subst color_depth.simps) (simp only: option.case)

lemma color_depth_hit:
  assumes "getHit world r 0.001 FLT_MAX = Some (index, h)"
  shows "color_depth r world n s =
     (if n < 25 then
        (case scatter (getMaterial (getObject world index)) r h s of
           (Some (attenuation, scattered), s') \<Rightarrow> Suc (color_depth scattered world (n + 1) s')
         | (None, s') \<Rightarrow> 0)
      else 0)"
  by (subst color_depth.simps) (simp only: assms Let_def fst_conv snd_conv option.case)

text \<open>
  Every call of \<open>color\<close> lies in the well-founded part of its recursion: the depth
  grows with every recursive call and recursion needs a depth below 25.
\<close>

lemma color_terminates: "color_dom (r, world, n, s)"
proof (induction "nat (25 - n)" arbitrary: r n s rule: less_induct)
  case less
  show ?case
  proof (rule accpI)
    fix y assume "color_rel y (r, world, n, s)"
    then obtain sc s' where y: "y = (sc, world, n + 1, s')" and n: "n < 25"
      by (elim color_rel.cases) auto
    from n have "nat (25 - (n + 1)) < nat (25 - n)" by simp
    then show "color_dom y" unfolding y by (rule less)
  qed
qed

lemma color_depth_cap: "25 \<le> n \<Longrightarrow> color_depth r world n s = 0"
  by (cases "getHit world r 0.001 FLT_MAX") (auto simp add: color_depth_miss color_depth_hit)

lemma color_depth_le: "color_depth r world n s \<le> nat (25 - n)"
proof (induction r n s rule: color_call_induct[where world=world])
  case (step r n s)
  show ?case
  proof (cases "getHit world r 0.001 FLT_MAX")
    case None
    then show ?thesis by (simp add: color_depth_miss)
  next
    case (Some ih)
    obtain index h where ih: "getHit world r 0.001 FLT_MAX = Some (index, h)"
      using Some by (cases ih) simp
    show ?thesis
    proof (cases "n < 25")
      case False
      then show ?thesis by (simp add: color_depth_cap)
    next
      case True
      obtain res s' where sc: "scatter (getMaterial (getObject world index)) r h s = (res, s')"
        by (cases "scatter (getMaterial (getObject world index)) r h s")
      show ?thesis
      proof (cases res)
        case None
        with sc True show ?thesis by (simp add: color_depth_hit[OF ih])
      next
        case (Some as)
        obtain a scd where as: "res = Some (a, scd)" using Some by (cases as) simp
        have "color_depth scd world (n + 1) s' \<le> nat (25 - (n + 1))"
          using step[OF ih True sc[unfolded as]] .
        with True sc as show ?thesis
          by (simp add: color_depth_hit[OF ih])
      qed
    qed
  qed
qed

subsection \<open>What the integrator reads of the collection and of the materials\<close>

text \<open>
  Two collections give the same radiance when, on the interval \<open>(0.001, FLT_MAX)\<close>,
  their nearest-hit queries agree, and the materials found there scatter alike and
  emit alike at the arguments \<open>0, 0, (0,0,0)\<close>.
\<close>

lemma color_cong:
  assumes q: "\<forall>r. getHit w' r 0.001 FLT_MAX = getHit w r 0.001 FLT_MAX"
    and sc_eq: "\<forall>r i h. getHit w r 0.001 FLT_MAX = Some (i, h) \<longrightarrow>
                  scatter (getMaterial (getObject w' i)) = scatter (getMaterial (getObject w i))"
    and em_eq: "\<forall>r i h. getHit w r 0.001 FLT_MAX = Some (i, h) \<longrightarrow>
                  emit (getMaterial (getObject w' i)) 0 0 (Vec3 0 0 0)
                  = emit (getMaterial (getObject w i)) 0 0 (Vec3 0 0 0)"
  shows "color r w' n s = color r w n s"
proof (induction r n s rule: color_call_induct[where world=w])
  case (step r n s)
  show ?case
  proof (cases "getHit w r 0.001 FLT_MAX")
    case None
    then have "getHit w' r 0.001 FLT_MAX = None" using q by simp
    with None show ?thesis by (simp add: color_miss)
  next
    case (Some ih)
    obtain index h where ih: "getHit w r 0.001 FLT_MAX = Some (index, h)"
      using Some by (cases ih) simp
    then have ih': "getHit w' r 0.001 FLT_MAX = Some (index, h)" using q by simp
    have em: "emit (getMaterial (getObject w' index)) 0 0 (Vec3 0 0 0)
            = emit (getMaterial (getObject w index)) 0 0 (Vec3 0 0 0)"
      using em_eq ih by blast
    obtain res s' where sc: "scatter (getMaterial (getObject w index)) r h s = (res, s')"
      by (cases "scatter (getMaterial (getObject w index)) r h s")
    have "scatter (getMaterial (getObject w' index)) = scatter (getMaterial (getObject w index))"
      using sc_eq ih by blast
    then have sc': "scatter (getMaterial (getObject w' index)) r h s = (res, s')"
      using sc by simp
    show ?thesis
    proof (cases "n < 25")
      case False
      then show ?thesis by (simp add: color_cap[OF ih] color_cap[OF ih'] em)
    next
      case True
      show ?thesis
      proof (cases res)
        case None
        with sc sc' True show ?thesis
          by (simp add: color_absorbed[OF ih] color_absorbed[OF ih'] em)
      next
        case (Some as)
        obtain a scd where as: "res = Some (a, scd)" using Some by (cases as) simp
        have "color scd w' (n + 1) s' = color scd w (n + 1) s'"
          using step[OF ih True sc[unfolded as]] .
        then show ?thesis
          using sc sc' as True
          by (simp add: color_scattered[OF ih True] color_scattered[OF ih' True] em)
      qed
    qed
  qed
qed

subsection \<open>Non-negative radiance\<close>

lemma color_nonneg:
  assumes mc: "\<forall>r i h. getHit world r 0.001 FLT_MAX = Some (i, h) \<longrightarrow>
                 materialContract (getMaterial (getObject world i))"
  shows "nonneg (fst (color r world n s))"
proof (induction r n s rule: color_call_induct[where world=world])
  case (step r n s)
  show ?case
  proof (cases "getHit world r 0.001 FLT_MAX")
    case None
    then show ?thesis by (simp add: color_miss nonneg_zero)
  next
    case (Some ih)
    obtain index h where ih: "getHit world r 0.001 FLT_MAX = Some (index, h)"
      using Some by (cases ih) simp
    let ?m = "getMaterial (getObject world index)"
    have c: "materialContract ?m" using mc ih by blast
    have e: "nonneg (emit ?m 0 0 (Vec3 0 0 0))" using c by (simp add: materialContract_def)
    obtain res s' where sc: "scatter ?m r h s = (res, s')" by (cases "scatter ?m r h s")
    show ?thesis
    proof (cases "n < 25")
      case False
      with e show ?thesis by (simp add: color_cap[OF ih])
    next
      case True
      show ?thesis
      proof (cases res)
        case None
        with e sc True show ?thesis by (simp add: color_absorbed[OF ih])
      next
        case (Some as)
        obtain a scd where as: "res = Some (a, scd)" using Some by (cases as) simp
        have na: "nonneg a" using c sc as unfolding materialContract_def by blast
        have "nonneg (fst (color scd world (n + 1) s'))"
          using step[OF ih True sc[unfolded as]] .
        with e na show ?thesis
          by (simp add: color_scattered[OF ih True sc[unfolded as]] nonneg_plus nonneg_times)
      qed
    qed
  qed
qed

subsection \<open>Sphere intersection\<close>

lemma dot_self_nonneg: "0 \<le> dot d d"
  by (simp add: dot_def)

lemma roots_ordered:
  assumes "0 \<le> discriminant sp r"
  shows "smallerRoot sp r \<le> largerRoot sp r"
proof -
  have "0 \<le> sqrt (discriminant sp r)" using assms by simp
  then have "- (2 * dot (origin r - center sp) (direction r)) - sqrt (discriminant sp r)
        \<le> - (2 * dot (origin r - center sp) (direction r)) + sqrt (discriminant sp r)" by simp
  then show ?thesis
    unfolding smallerRoot_def largerRoot_def Let_def
    by (intro divide_right_mono) (simp_all add: dot_self_nonneg)
qed

lemma hitSphere_in_interval:
  "hitSphere sp r tMin tMax = Some h \<Longrightarrow> tMin < hit_t h \<and> hit_t h < tMax"
  by (auto simp add: hitSphere_def hitAt_def split: if_splits)

lemma hitSphere_record:
  "hitSphere sp r tMin tMax = Some h \<Longrightarrow>
   point h = pointAt r (hit_t h) \<and> normal h = divide_by (point h - center sp) (radius sp)"
  by (auto simp add: hitSphere_def hitAt_def split: if_splits)

lemma dot_pointAt:
  "dot (pointAt r k - center sp) (pointAt r k - center sp) =
     dot (direction r) (direction r) * k * k
     + 2 * dot (origin r - center sp) (direction r) * k
     + dot (origin r - center sp) (origin r - center sp)"
  by (simp add: dot_def pointAt_def scale_def plus_vec3_def minus_vec3_def algebra_simps)

lemma quadratic_root:
  fixes a b c k :: real
  assumes a: "a \<noteq> 0" and d: "0 \<le> b * b - 4 * a * c"
    and k: "k = (- b - sqrt (b * b - 4 * a * c)) / (2 * a)
          \<or> k = (- b + sqrt (b * b - 4 * a * c)) / (2 * a)"
  shows "a * k * k + b * k + c = 0"
proof -
  define q where "q = sqrt (b * b - 4 * a * c)"
  have qq: "q * q = b * b - 4 * a * c" unfolding q_def using d by simp
  have "2 * a * k + b = - q \<or> 2 * a * k + b = q"
    using k a unfolding q_def[symmetric] by (auto simp add: field_simps)
  then have "(2 * a * k + b) * (2 * a * k + b) = q * q"
    by auto
  then have "4 * a * (a * k * k + b * k + c) = 0"
    unfolding qq by (simp add: algebra_simps)
  with a show ?thesis by simp
qed

lemma hit_on_sphere:
  assumes "hitSphere sp r tMin tMax = Some h"
  shows "dot (point h - center sp) (point h - center sp) = radius sp * radius sp"
proof -
  let ?a = "dot (direction r) (direction r)"
  let ?b = "2 * dot (origin r - center sp) (direction r)"
  let ?c = "dot (origin r - center sp) (origin r - center sp) - radius sp * radius sp"
  from assms have a: "?a \<noteq> 0" and d: "0 \<le> discriminant sp r"
    and k: "hit_t h = smallerRoot sp r \<or> hit_t h = largerRoot sp r"
    and p: "point h = pointAt r (hit_t h)"
    by (auto simp add: hitSphere_def hitAt_def split: if_splits)
  have "?a * hit_t h * hit_t h + ?b * hit_t h + ?c = 0"
    by (rule quadratic_root[OF a])
       (use d k in \<open>simp_all add: discriminant_def smallerRoot_def largerRoot_def Let_def\<close>)
  then show ?thesis
    unfolding p dot_pointAt by simp
qed

text \<open>
  Narrowing the upper bound of the interval keeps the accepted hit when it lies below
  the new bound and loses it otherwise.
\<close>

lemma hitSphere_narrow:
  assumes "closest \<le> tMax"
  shows "hitSphere sp r tMin closest =
     (case hitSphere sp r tMin tMax of
        Some h \<Rightarrow> if hit_t h < closest then Some h else None
      | None \<Rightarrow> None)"
proof (cases "discriminant sp r < 0 \<or> dot (direction r) (direction r) = 0")
  case True
  then show ?thesis by (auto simp add: hitSphere_def)
next
  case False
  then have "smallerRoot sp r \<le> largerRoot sp r" by (simp add: roots_ordered)
  with False assms show ?thesis
    by (auto simp add: hitSphere_def hitAt_def)
qed

lemma hitSphere_narrow_Some:
  assumes "closest \<le> tMax"
  shows "hitSphere sp r tMin closest = Some h \<longleftrightarrow>
         hitSphere sp r tMin tMax = Some h \<and> hit_t h < closest"
  by (auto simp add: hitSphere_narrow[OF assms] split: option.splits if_splits)

subsection \<open>The closest-so-far sweep\<close>

lemma closestSoFar_all_miss:
  "\<forall>ob\<in>set obs. hitSphere ob r tMin closest = None \<Longrightarrow>
   closestSoFar obs r tMin closest i best = best"
  by (induction obs arbitrary: i) simp_all

lemma closestSoFar_some_hit:
  "\<exists>ob\<in>set obs. hitSphere ob r tMin closest \<noteq> None \<Longrightarrow>
   \<exists>k h. closestSoFar obs r tMin closest i best = Some (i + k, h) \<and> k < length obs \<and>
     hitSphere (obs ! k) r tMin closest = Some h \<and>
     (\<forall>j<length obs. \<forall>h'. hitSphere (obs ! j) r tMin closest = Some h' \<longrightarrow> hit_t h \<le> hit_t h')"
proof (induction obs arbitrary: closest i best)
  case Nil
  then show ?case by simp
next
  case (Cons ob obs)
  show ?case
  proof (cases "hitSphere ob r tMin closest")
    case None
    with Cons.prems have "\<exists>ob\<in>set obs. hitSphere ob r tMin closest \<noteq> None" by auto
    from Cons.IH[OF this, of "i + 1" best] obtain k h where
      res: "closestSoFar obs r tMin closest (i + 1) best = Some (i + 1 + k, h)"
      and k: "k < length obs"
      and hk: "hitSphere (obs ! k) r tMin closest = Some h"
      and mn: "\<forall>j<length obs. \<forall>h'. hitSphere (obs ! j) r tMin closest = Some h' \<longrightarrow> hit_t h \<le> hit_t h'"
      by blast
    have min': "\<forall>j<length (ob # obs). \<forall>h'. hitSphere ((ob # obs) ! j) r tMin closest = Some h'
                  \<longrightarrow> hit_t h \<le> hit_t h'"
    proof (intro allI impI)
      fix j h' assume j: "j < length (ob # obs)" and h': "hitSphere ((ob # obs) ! j) r tMin closest = Some h'"
      show "hit_t h \<le> hit_t h'"
      proof (cases j)
        case 0
        with h' None show ?thesis by simp
      next
        case (Suc j')
        with j h' mn show ?thesis by simp
      qed
    qed
    show ?thesis
      apply (rule exI[where x="Suc k"], rule exI[where x=h])
      using None res k hk min' by simp
  next
    case (Some h0)
    have c': "hit_t h0 < closest" using Some hitSphere_in_interval by blast
    then have le: "hit_t h0 \<le> closest" by simp
    have res0: "closestSoFar (ob # obs) r tMin closest i best
              = closestSoFar obs r tMin (hit_t h0) (i + 1) (Some (i, h0))"
      using Some by simp
    show ?thesis
    proof (cases "\<exists>ob\<in>set obs. hitSphere ob r tMin (hit_t h0) \<noteq> None")
      case False
      then have res: "closestSoFar (ob # obs) r tMin closest i best = Some (i, h0)"
        unfolding res0 by (simp add: closestSoFar_all_miss)
      have min': "\<forall>j<length (ob # obs). \<forall>h'. hitSphere ((ob # obs) ! j) r tMin closest = Some h'
                  \<longrightarrow> hit_t h0 \<le> hit_t h'"
      proof (intro allI impI)
        fix j h' assume j: "j < length (ob # obs)" and h': "hitSphere ((ob # obs) ! j) r tMin closest = Some h'"
        show "hit_t h0 \<le> hit_t h'"
        proof (cases j)
          case 0
          with h' Some show ?thesis by simp
        next
          case (Suc j')
          then have in_set: "obs ! j' \<in> set obs" using j by simp
          have "hitSphere (obs ! j') r tMin (hit_t h0) = None" using False in_set by blast
          moreover have "hitSphere (obs ! j') r tMin closest = Some h'" using h' Suc by simp
          ultimately show ?thesis
            using hitSphere_narrow_Some[OF le, of "obs ! j'" r tMin h'] by auto
        qed
      qed
      show ?thesis
        apply (rule exI[where x=0], rule exI[where x=h0])
        using res Some min' by simp
    next
      case True
      from Cons.IH[OF True, of "i + 1" "Some (i, h0)"] obtain k h where
        res: "closestSoFar obs r tMin (hit_t h0) (i + 1) (Some (i, h0)) = Some (i + 1 + k, h)"
        and k: "k < length obs"
        and hk: "hitSphere (obs ! k) r tMin (hit_t h0) = Some h"
        and mn: "\<forall>j<length obs. \<forall>h'. hitSphere (obs ! j) r tMin (hit_t h0) = Some h'
                   \<longrightarrow> hit_t h \<le> hit_t h'"
        by blast
      have hk': "hitSphere (obs ! k) r tMin closest = Some h" and lt: "hit_t h < hit_t h0"
        using hk hitSphere_narrow_Some[OF le, of "obs ! k" r tMin h] by auto
      have min': "\<forall>j<length (ob # obs). \<forall>h'. hitSphere ((ob # obs) ! j) r tMin closest = Some h'
                  \<longrightarrow> hit_t h \<le> hit_t h'"
      proof (intro allI impI)
        fix j h' assume j: "j < length (ob # obs)" and h': "hitSphere ((ob # obs) ! j) r tMin closest = Some h'"
        show "hit_t h \<le> hit_t h'"
        proof (cases j)
          case 0
          with h' Some lt show ?thesis by simp
        next
          case (Suc j')
          then have j': "j' < length obs" and hj: "hitSphere (obs ! j') r tMin closest = Some h'"
            using j h' by simp_all
          show ?thesis
          proof (cases "hit_t h' < hit_t h0")
            case True
            then have "hitSphere (obs ! j') r tMin (hit_t h0) = Some h'"
              using hj hitSphere_narrow_Some[OF le, of "obs ! j'" r tMin h'] by simp
            with mn j' show ?thesis by blast
          next
            case False
            with lt show ?thesis by simp
          qed
        qed
      qed
      show ?thesis
        apply (rule exI[where x="Suc k"], rule exI[where x=h])
        using res0 res k hk' min' by simp
    qed
  qed
qed

lemma nearestHit_None_iff:
  "nearestHit objs r tMin tMax = None \<longleftrightarrow>
     (\<forall>i<length objs. hitSphere (objs ! i) r tMin tMax = None)"
proof
  assume n: "nearestHit objs r tMin tMax = None"
  show "\<forall>i<length objs. hitSphere (objs ! i) r tMin tMax = None"
  proof (rule ccontr)
    assume "\<not> ?thesis"
    then have "\<exists>ob\<in>set objs. hitSphere ob r tMin tMax \<noteq> None"
      by (metis nth_mem)
    from closestSoFar_some_hit[OF this, of 0 None] n show False
      by (auto simp add: nearestHit_def)
  qed
next
  assume "\<forall>i<length objs. hitSphere (objs ! i) r tMin tMax = None"
  then have "\<forall>ob\<in>set objs. hitSphere ob r tMin tMax = None"
    by (metis in_set_conv_nth)
  then show "nearestHit objs r tMin tMax = None"
    by (simp add: nearestHit_def closestSoFar_all_miss)
qed

lemma nearestHit_Some:
  assumes "nearestHit objs r tMin tMax = Some (i, h)"
  shows "i < length objs \<and> hitSphere (objs ! i) r tMin tMax = Some h \<and>
     (\<forall>j<length objs. \<forall>h'. hitSphere (objs ! j) r tMin tMax = Some h' \<longrightarrow> hit_t h \<le> hit_t h')"
proof -
  have "\<not> (\<forall>i<length objs. hitSphere (objs ! i) r tMin tMax = None)"
    using assms nearestHit_None_iff[of objs r tMin tMax] by simp
  then have "\<exists>ob\<in>set objs. hitSphere ob r tMin tMax \<noteq> None"
    by (metis nth_mem)
  from closestSoFar_some_hit[OF this, of 0 None] assms show ?thesis
    by (auto simp add: nearestHit_def)
qed


subsection \<open>The sample loop\<close>

lemma sampleLoop_sum:
  "component (fst (sampleLoop drand48 cam world x y s px st)) k =
     component px k + sum_list (map (\<lambda>c. component c k) (sampleValues drand48 cam world x y s st))"
proof (induction drand48 cam world x y s px st rule: sampleLoop.induct)
  case (1 drand48 cam world x y s px st)
  show ?case
  proof (cases "s < ns")
    case False
    then show ?thesis
      by (subst sampleLoop.simps, subst sampleValues.simps) simp
  next
    case True
    obtain c st' where sm: "sample drand48 cam world x y st = (c, st')"
      by (cases "sample drand48 cam world x y st")
    have comp: "component (px + c) k = component px k + component c k"
      by (rule component_plus)
    show ?thesis
      using "1.IH"[OF True sm[symmetric]] True sm comp
      by (subst sampleLoop.simps, subst sampleValues.simps) simp
  qed
qed

lemma sampleValues_length:
  "int (length (sampleValues drand48 cam world x y s st)) = max 0 (ns - s)"
proof (induction drand48 cam world x y s st rule: sampleValues.induct)
  case (1 drand48 cam world x y s st)
  show ?case
  proof (cases "s < ns")
    case False
    then show ?thesis by (subst sampleValues.simps) simp
  next
    case True
    obtain c st' where sm: "sample drand48 cam world x y st = (c, st')"
      by (cases "sample drand48 cam world x y st")
    show ?thesis
      using "1.IH"[OF True sm[symmetric]] True sm
      by (subst sampleValues.simps) simp
  qed
qed

lemma sampleValues_const:
  assumes "sample drand48 cam world x y st = (c, st)"
  shows "sampleValues drand48 cam world x y s st = replicate (nat (ns - s)) c"
  using assms
proof (induction drand48 cam world x y s st rule: sampleValues.induct)
  case (1 drand48 cam world x y s st)
  show ?case
  proof (cases "s < ns")
    case False
    then show ?thesis by (subst sampleValues.simps) simp
  next
    case True
    then have "nat (ns - s) = Suc (nat (ns - (s + 1)))" by simp
    then show ?thesis
      using "1.IH"[OF True "1.prems"[symmetric] "1.prems"] True "1.prems"
      by (subst sampleValues.simps) simp
  qed
qed

lemma renderPixel_bytes:
  "fst (renderPixel drand48 cam world x y st) =
     (let acc = fst (sampleLoop drand48 cam world x y 0 (Vec3 0 0 0) st)
      in [to_uchar (gammaCorrect (component acc 2 / real_of_int ns)),
          to_uchar (gammaCorrect (component acc 1 / real_of_int ns)),
          to_uchar (gammaCorrect (component acc 0 / real_of_int ns))])"
  by (simp add: renderPixel_def Let_def component_def divide_by_def split: prod.splits)

lemma sampleValues_are_color:
  "c \<in> set (sampleValues drand48 cam world x y s st) \<Longrightarrow>
   \<exists>r s'. c = fst (color r world 0 s')"
proof (induction drand48 cam world x y s st rule: sampleValues.induct)
  case (1 drand48 cam world x y s st)
  show ?case
  proof (cases "s < ns")
    case False
    with "1.prems" show ?thesis by (subst (asm) sampleValues.simps) simp
  next
    case True
    obtain c0 st' where sm: "sample drand48 cam world x y st = (c0, st')"
      by (cases "sample drand48 cam world x y st")
    from "1.prems" True sm
    have "c = c0 \<or> c \<in> set (sampleValues drand48 cam world x y (s + 1) st')"
      by (subst (asm) sampleValues.simps) simp
    then show ?thesis
    proof
      assume "c = c0"
      moreover have "\<exists>r s'. c0 = fst (color r world 0 s')"
        using sm by (auto simp add: sample_def Let_def split: prod.splits) (metis fst_conv)
      ultimately show ?thesis by simp
    next
      assume "c \<in> set (sampleValues drand48 cam world x y (s + 1) st')"
      then show ?thesis using "1.IH"[OF True sm[symmetric]] by blast
    qed
  qed
qed

lemma gammaCorrect_nonneg: "0 \<le> c \<Longrightarrow> gammaCorrect c = min 255 (255 * sqrt c)"
  by (simp add: gammaCorrect_def)

lemma dim_sample:
  "sample halfRand fixedCamera (ObjCollection_of dimLight) 0 0 st = (Vec3 (1/4) 1 4, st)"
proof -
  have g: "getHit (ObjCollection_of dimLight) downRay 0.001 FLT_MAX
     = Some (0, \<lparr>hit_t = 4, point = Vec3 0 0 1, normal = Vec3 0 0 1\<rparr>)"
    by (simp add: collection_ops dimLight_def sphere_ops vec3_ops downRay_def FLT_MAX_def)
  have "color downRay (ObjCollection_of dimLight) 0 st = (Vec3 (1/4) 1 4, st)"
    by (subst color_hit_unfold[OF g])
       (simp add: collection_ops dimLight_def Sphere_def DiffuseLight_def)
  then show ?thesis
    by (simp add: sample_def halfRand_def fixedCamera_def)
qed

subsection \<open>The two facing spheres\<close>

text \<open>In \<open>facingScene\<close> every bounce finds the other sphere, so the ray from the origin
  bounces until the cap stops it.\<close>

lemma up_hit:
  "getHit (ObjCollection_of facingScene) \<lparr>origin = Vec3 0 0 (- 1), direction = Vec3 0 0 1\<rparr> 0.001 FLT_MAX
     = Some (1, \<lparr>hit_t = 2, point = Vec3 0 0 1, normal = Vec3 0 0 (- 1)\<rparr>)"
  by (simp add: collection_ops facingScene_def sphere_ops vec3_ops FLT_MAX_def)

lemma down_hit:
  "getHit (ObjCollection_of facingScene) \<lparr>origin = Vec3 0 0 1, direction = Vec3 0 0 (- 1)\<rparr> 0.001 FLT_MAX
     = Some (0, \<lparr>hit_t = 2, point = Vec3 0 0 (- 1), normal = Vec3 0 0 1\<rparr>)"
  by (simp add: collection_ops facingScene_def sphere_ops vec3_ops FLT_MAX_def)

lemma first_hit:
  "getHit (ObjCollection_of facingScene) upRay 0.001 FLT_MAX
     = Some (1, \<lparr>hit_t = 1, point = Vec3 0 0 1, normal = Vec3 0 0 (- 1)\<rparr>)"
  by (simp add: collection_ops facingScene_def sphere_ops vec3_ops FLT_MAX_def upRay_def)

lemma facing_scatter:
  "i < 2 \<Longrightarrow> scatter (getMaterial (getObject (ObjCollection_of facingScene) i)) r h s
     = (Some (Vec3 1 1 1, \<lparr>origin = point h, direction = normal h\<rparr>), Suc s)"
  by (auto simp add: collection_ops facingScene_def Sphere_def backScatter_def less_Suc_eq numeral_2_eq_2)

lemma bounce:
  "n < 25 \<Longrightarrow>
   color_depth \<lparr>origin = Vec3 0 0 1, direction = Vec3 0 0 (- 1)\<rparr> (ObjCollection_of facingScene) n s
     = Suc (color_depth \<lparr>origin = Vec3 0 0 (- 1), direction = Vec3 0 0 1\<rparr> (ObjCollection_of facingScene) (n + 1) (Suc s))"
  "n < 25 \<Longrightarrow>
   color_depth \<lparr>origin = Vec3 0 0 (- 1), direction = Vec3 0 0 1\<rparr> (ObjCollection_of facingScene) n s
     = Suc (color_depth \<lparr>origin = Vec3 0 0 1, direction = Vec3 0 0 (- 1)\<rparr> (ObjCollection_of facingScene) (n + 1) (Suc s))"
  by (simp_all add: color_depth_hit[OF down_hit] color_depth_hit[OF up_hit] facing_scatter)

lemma facing_depth: "color_depth upRay (ObjCollection_of facingScene) 0 0 = 25"
  by (simp add: color_depth_hit[OF first_hit] facing_scatter bounce color_depth_cap)

subsection \<open>Float arithmetic of the integrator\<close>


lemma fl_in_range: "- FLT_MAX \<le> x \<Longrightarrow> x \<le> FLT_MAX \<Longrightarrow> fl x = Fin x"
  by (simp add: fl_def)

















lemma sqrt_64: "sqrt 64 = 8"
  by (rule real_sqrt_unique) simp_all

lemma sqrt_100: "sqrt 100 = 10"
  by (rule real_sqrt_unique) simp_all

lemma of1: "getHit (ObjCollection_of overflowScene) downRay 0.001 FLT_MAX
     = Some (0, \<lparr>hit_t = 4, point = Vec3 0 0 1, normal = Vec3 0 0 1\<rparr>)"
  by (simp add: collection_ops overflowScene_def sphere_ops vec3_ops downRay_def FLT_MAX_def sqrt_64)

lemma of2: "getHit (ObjCollection_of overflowScene) \<lparr>origin = Vec3 0 0 1, direction = Vec3 0 0 1\<rparr>
       0.001 FLT_MAX
     = Some (1, \<lparr>hit_t = 5, point = Vec3 0 0 6, normal = Vec3 (- (3/5)) 0 (- (4/5))\<rparr>)"
  by (simp add: collection_ops overflowScene_def sphere_ops vec3_ops FLT_MAX_def sqrt_64)

lemma of3: "getHit (ObjCollection_of overflowScene)
       \<lparr>origin = Vec3 0 0 6, direction = Vec3 (- (3/5)) 0 (- (4/5))\<rparr> 0.001 FLT_MAX
     = Some (2, \<lparr>hit_t = 10, point = Vec3 (- 6) 0 (- 2), normal = Vec3 (3/5) 0 (4/5)\<rparr>)"
  by (simp add: collection_ops overflowScene_def sphere_ops vec3_ops FLT_MAX_def sqrt_64 sqrt_100 power2_eq_square)


subsection \<open>The overflow scene\<close>




lemma overflow_materials:
  "getMaterial (getObject (ObjCollection_of overflowScene) 0) = backScatter (Vec3 0 0 0)"
  "getMaterial (getObject (ObjCollection_of overflowScene) (Suc 0))
     = backScatter (Vec3 (10 ^ 30) (10 ^ 30) (10 ^ 30))"
  "getMaterial (getObject (ObjCollection_of overflowScene) 2)
     = DiffuseLight (Vec3 (10 ^ 30) (10 ^ 30) (10 ^ 30))"
  by (simp_all add: collection_ops overflowScene_def Sphere_def)




lemma real_value:
  "color downRay (ObjCollection_of overflowScene) 0 s = (Vec3 0 0 0, Suc (Suc s))"
proof -
  have l: "color \<lparr>origin = Vec3 0 0 6, direction = Vec3 (- (3/5)) 0 (- (4/5))\<rparr>
     (ObjCollection_of overflowScene) 2 t = (Vec3 (10 ^ 30) (10 ^ 30) (10 ^ 30), t)" for t
    by (subst color_hit_unfold[OF of3]) (simp add: overflow_materials DiffuseLight_def)
  have a: "color \<lparr>origin = Vec3 0 0 1, direction = Vec3 0 0 1\<rparr>
     (ObjCollection_of overflowScene) 1 t = (Vec3 (10 ^ 60) (10 ^ 60) (10 ^ 60), Suc t)" for t
    by (subst color_hit_unfold[OF of2])
       (simp add: overflow_materials backScatter_def l plus_vec3_def times_vec3_def)
  show ?thesis
    by (subst color_hit_unfold[OF of1])
       (simp add: overflow_materials backScatter_def a plus_vec3_def times_vec3_def)
qed



subsection \<open>Runs of the parallel loop\<close>

lemma sampleValues_steady:
  fixes st :: nat
  assumes "\<And>k. k < nat (ns - s) \<Longrightarrow> sample drand48 cam world x y (st + 2 * k) = (c, st + 2 * k + 2)"
  shows "sampleValues drand48 cam world x y s st = replicate (nat (ns - s)) c"
  using assms
proof (induction "nat (ns - s)" arbitrary: s st)
  case 0
  then have "\<not> s < ns" by simp
  then show ?case using 0 by (subst sampleValues.simps) simp
next
  case (Suc m)
  then have lt: "s < ns" by simp
  have m: "m = nat (ns - (s + 1))" using Suc.hyps(2) by simp
  have first: "sample drand48 cam world x y st = (c, st + 2)"
    using Suc.prems[of 0] Suc.hyps(2) by simp
  have rest: "sample drand48 cam world x y (st + 2 + 2 * k) = (c, st + 2 + 2 * k + 2)"
    if "k < nat (ns - (s + 1))" for k
    using Suc.prems[of "Suc k"] that Suc.hyps(2) by (simp add: algebra_simps)
  have "sampleValues drand48 cam world x y (s + 1) (st + 2) = replicate (nat (ns - (s + 1))) c"
    using Suc.hyps(1)[OF m rest] .
  then show ?case
    using lt first Suc.hyps(2) m by (subst sampleValues.simps) (simp add: replicate_Suc[symmetric] del: replicate_Suc)
qed

lemma sampleLoop_steady_state:
  fixes st :: nat
  assumes "\<And>k. k < nat (ns - s) \<Longrightarrow> sample drand48 cam world x y (st + 2 * k) = (c, st + 2 * k + 2)"
  shows "snd (sampleLoop drand48 cam world x y s px st) = st + 2 * nat (ns - s)"
  using assms
proof (induction "nat (ns - s)" arbitrary: s st px)
  case 0
  then have "\<not> s < ns" by simp
  then show ?case using 0 by (subst sampleLoop.simps) simp
next
  case (Suc m)
  then have lt: "s < ns" by simp
  have m: "m = nat (ns - (s + 1))" using Suc.hyps(2) by simp
  have first: "sample drand48 cam world x y st = (c, st + 2)"
    using Suc.prems[of 0] Suc.hyps(2) by simp
  have rest: "sample drand48 cam world x y (st + 2 + 2 * k) = (c, st + 2 + 2 * k + 2)"
    if "k < nat (ns - (s + 1))" for k
    using Suc.prems[of "Suc k"] that Suc.hyps(2) by (simp add: algebra_simps)
  have "snd (sampleLoop drand48 cam world x y (s + 1) (px + c) (st + 2))
          = st + 2 + 2 * nat (ns - (s + 1))"
    using Suc.hyps(1)[OF m rest] .
  then show ?case
    using lt first Suc.hyps(2) m by (subst sampleLoop.simps) simp
qed

lemma renderPixel_steady:
  fixes st :: nat
  assumes "\<And>k. k < 100 \<Longrightarrow> sample drand48 cam world x y (st + 2 * k) = (c, st + 2 * k + 2)"
  shows "renderPixel drand48 cam world x y st =
     ([to_uchar (gammaCorrect (component c 2)),
       to_uchar (gammaCorrect (component c 1)),
       to_uchar (gammaCorrect (component c 0))], st + 200)"
proof -
  have a: "\<And>k. k < nat (ns - 0) \<Longrightarrow> sample drand48 cam world x y (st + 2 * k) = (c, st + 2 * k + 2)"
    using assms by (simp add: ns_def)
  have sv: "sampleValues drand48 cam world x y 0 st = replicate 100 c"
    using sampleValues_steady[OF a] by (simp add: ns_def)
  have comp: "component (fst (sampleLoop drand48 cam world x y 0 (Vec3 0 0 0) st)) k
                / real_of_int ns = component c k" for k
    unfolding sampleLoop_sum sv by (simp add: component_zero sum_list_replicate ns_def)
  have state: "snd (sampleLoop drand48 cam world x y 0 (Vec3 0 0 0) st) = st + 200"
    using sampleLoop_steady_state[OF a] by (simp add: ns_def)
  have f: "fst (renderPixel drand48 cam world x y st) =
     [to_uchar (gammaCorrect (component c 2)),
       to_uchar (gammaCorrect (component c 1)),
       to_uchar (gammaCorrect (component c 0))]"
    unfolding renderPixel_bytes Let_def comp by (simp only:)
  have s: "snd (renderPixel drand48 cam world x y st) = st + 200"
    using state by (cases "sampleLoop drand48 cam world x y 0 (Vec3 0 0 0) st")
      (simp add: renderPixel_def Let_def)
  show ?thesis using f s by (simp add: prod_eq_iff)
qed

lemma pan_hit:
  "k < 100 \<Longrightarrow> sample stepRand panCamera (ObjCollection_of dimLight) 0 y (0 + 2 * k)
     = (Vec3 (1/4) 1 4, 0 + 2 * k + 2)"
proof -
  assume k: "k < 100"
  have g: "getHit (ObjCollection_of dimLight) \<lparr>origin = Vec3 0 0 5, direction = Vec3 0 0 (- 1)\<rparr>
       0.001 FLT_MAX
     = Some (0, \<lparr>hit_t = 4, point = Vec3 0 0 1, normal = Vec3 0 0 1\<rparr>)"
    by (simp add: collection_ops dimLight_def sphere_ops vec3_ops FLT_MAX_def)
  have c: "color \<lparr>origin = Vec3 0 0 5, direction = Vec3 0 0 (- 1)\<rparr> (ObjCollection_of dimLight) 0 t
             = (Vec3 (1/4) 1 4, t)" for t :: nat
    by (subst color_hit_unfold[OF g])
       (simp add: collection_ops dimLight_def Sphere_def DiffuseLight_def)
  show ?thesis
    using k by (simp add: sample_def stepRand_def panCamera_def c nx_def)
qed

lemma pan_miss:
  "sample stepRand panCamera (ObjCollection_of dimLight) 0 y (200 + 2 * k)
     = (Vec3 0 0 0, 200 + 2 * k + 2)"
proof -
  have g: "getHit (ObjCollection_of dimLight) \<lparr>origin = Vec3 0 0 5, direction = Vec3 1 0 (- 1)\<rparr>
       0.001 FLT_MAX = None"
    by (simp add: collection_ops dimLight_def sphere_ops vec3_ops FLT_MAX_def)
  have c: "color \<lparr>origin = Vec3 0 0 5, direction = Vec3 1 0 (- 1)\<rparr> (ObjCollection_of dimLight) 0 t
             = (Vec3 0 0 0, t)" for t :: nat
    by (rule color_miss[OF g])
  show ?thesis
    by (simp add: sample_def stepRand_def panCamera_def c nx_def)
qed

lemma lit_bytes:
  "[to_uchar (gammaCorrect (component (Vec3 (1/4) 1 4) 2)),
    to_uchar (gammaCorrect (component (Vec3 (1/4) 1 4) 1)),
    to_uchar (gammaCorrect (component (Vec3 (1/4) 1 4) 0))] = [255, 255, 127]"
  by (simp add: component_def gammaCorrect_def to_uchar_def real_sqrt_divide)

lemma dark_bytes:
  "[to_uchar (gammaCorrect (component (Vec3 0 0 0) 2)),
    to_uchar (gammaCorrect (component (Vec3 0 0 0) 1)),
    to_uchar (gammaCorrect (component (Vec3 0 0 0) 0))] = [0, 0, 0]"
  by (simp add: component_def gammaCorrect_def to_uchar_def)

lemma pixel_from_seed:
  "renderPixel stepRand panCamera (ObjCollection_of dimLight) 0 y 0 = ([255, 255, 127], 200)"
proof -
  have "renderPixel stepRand panCamera (ObjCollection_of dimLight) 0 y 0 =
     ([to_uchar (gammaCorrect (component (Vec3 (1/4) 1 4) 2)),
       to_uchar (gammaCorrect (component (Vec3 (1/4) 1 4) 1)),
       to_uchar (gammaCorrect (component (Vec3 (1/4) 1 4) 0))], 0 + 200)"
    by (rule renderPixel_steady) (rule pan_hit)
  then show ?thesis unfolding lit_bytes by simp
qed

lemma pixel_after_other:
  "renderPixel stepRand panCamera (ObjCollection_of dimLight) 0 y 200 = ([0, 0, 0], 400)"
proof -
  have "renderPixel stepRand panCamera (ObjCollection_of dimLight) 0 y 200 =
     ([to_uchar (gammaCorrect (component (Vec3 0 0 0) 2)),
       to_uchar (gammaCorrect (component (Vec3 0 0 0) 1)),
       to_uchar (gammaCorrect (component (Vec3 0 0 0) 0))], 200 + 200)"
    by (rule renderPixel_steady) (rule pan_miss)
  then show ?thesis unfolding dark_bytes by simp
qed

lemma first_pixels: "pixelOf 0 0 = (0, 1079)" "pixelOf (Suc 0) 0 = (0, 809)"
  by (simp_all add: pixelOf_def rowsPerThread_def threads_def nx_def ny_def)

lemma pixelOf_first_unique:
  assumes "pixelOf t i = (0, 1079)"
  shows "t = 0 \<and> i = 0"
proof -
  from assms have m: "i mod 1920 = 0" and r: "270 * t + i div 1920 = 0"
    by (simp_all add: pixelOf_def rowsPerThread_def threads_def nx_def ny_def)
  from r have "t = 0" and "i div 1920 = 0" by simp_all
  with m show ?thesis by (simp add: div_eq_0_iff)
qed

lemma first_pixel_kept:
  assumes "0 < finished 0"
  shows "fst (renderSchedule drand48 cam world schedule finished img st) (1079, 0) = img (1079, 0)"
  using assms
proof (induction schedule arbitrary: finished img st)
  case Nil
  then show ?case by simp
next
  case (Cons t schedule)
  show ?case
  proof (cases "t < threads \<and> finished t < quota")
    case False
    then show ?thesis using Cons.IH[where finished=finished and img=img and st=st] Cons.prems by auto
  next
    case True
    obtain x y where p: "pixelOf t (finished t) = (x, y)" by (cases "pixelOf t (finished t)")
    obtain bytes st' where rp: "renderPixel drand48 cam world x y st = (bytes, st')"
      by (cases "renderPixel drand48 cam world x y st")
    have ne: "(y, x) \<noteq> (1079, 0)"
    proof
      assume "(y, x) = (1079, 0)"
      then have "pixelOf t (finished t) = (0, 1079)" using p by simp
      then have "t = 0 \<and> finished t = 0" by (rule pixelOf_first_unique)
      then have "finished 0 = 0" by auto
      with Cons.prems show False by auto
    qed
    have pos: "0 < (finished(t := Suc (finished t))) 0" using Cons.prems by simp
    have step: "renderSchedule drand48 cam world (t # schedule) finished img st
        = renderSchedule drand48 cam world schedule (finished(t := Suc (finished t)))
            (img((y, x) := Some bytes)) st'"
      using True p rp by simp
    have keep: "fst (renderSchedule drand48 cam world schedule (finished(t := Suc (finished t)))
            (img((y, x) := Some bytes)) st') (1079, 0) = (img((y, x) := Some bytes)) (1079, 0)"
      by (rule Cons.IH[where finished="finished(t := Suc (finished t))", OF pos])
    have same: "(img((y, x) := Some bytes)) (1079, 0) = img (1079, 0)"
      using ne by auto
    show ?thesis
      unfolding step keep same ..
  qed
qed

lemma run_a:
  "render stepRand panCamera (ObjCollection_of dimLight) 0 (0 # 1 # rest) (1079, 0)
     = Some [255, 255, 127]"
proof -
  have q: "0 < quota" by (simp add: quota_def rowsPerThread_def threads_def nx_def ny_def)
  have t: "0 < threads" by (simp add: threads_def)
  have "render stepRand panCamera (ObjCollection_of dimLight) 0 (0 # 1 # rest) (1079, 0)
      = fst (renderSchedule stepRand panCamera (ObjCollection_of dimLight) (1 # rest)
              ((\<lambda>t. 0)(0 := Suc 0)) ((\<lambda>p. None)((1079, 0) := Some [255, 255, 127])) 200) (1079, 0)"
    using q t by (simp add: render_def first_pixels pixel_from_seed)
  also have "\<dots> = ((\<lambda>p. None)((1079, 0) := Some [255, 255, 127])) (1079 :: int, 0 :: int)"
    by (rule first_pixel_kept) simp
  finally show ?thesis by simp
qed

lemma run_b:
  "render stepRand panCamera (ObjCollection_of dimLight) 0 (1 # 0 # rest) (1079, 0)
     = Some [0, 0, 0]"
proof -
  have q: "0 < quota" by (simp add: quota_def rowsPerThread_def threads_def nx_def ny_def)
  have t: "1 < threads" by (simp add: threads_def)
  have "render stepRand panCamera (ObjCollection_of dimLight) 0 (1 # 0 # rest) (1079, 0)
      = fst (renderSchedule stepRand panCamera (ObjCollection_of dimLight) rest
              ((\<lambda>t. 0)(1 := Suc 0, 0 := Suc 0))
              ((\<lambda>p. None)((809, 0) := Some [255, 255, 127], (1079, 0) := Some [0, 0, 0])) 400)
            (1079, 0)"
    using q t by (simp add: render_def first_pixels pixel_from_seed pixel_after_other)
  also have "\<dots> = ((\<lambda>p. None)((809, 0) := Some [255, 255, 127], (1079, 0) := Some [0, 0, 0]))
        (1079 :: int, 0 :: int)"
    by (rule first_pixel_kept) simp
  finally show ?thesis by simp
qed

section \<open>The integrator: claims C1, C2, C3, C6, C9, C10\<close>

text \<open>
  Claim C1. For every scene, ray, depth \<open>n\<close> and generator state: when the nearest-hit
  query on \<open>(0.001, FLT_MAX)\<close> succeeds with primitive \<open>index\<close> and hit record \<open>h\<close>,
  \<open>color\<close> computes the emission of that primitive's material. If \<open>n < 25\<close> and the
  material's scatter succeeds, the result is the emission plus the component-wise product
  of the attenuation with the radiance of the scattered ray at depth \<open>n + 1\<close> (computed
  in the generator state that the scatter left). If the scatter fails or \<open>n\<close> has reached
  25, the result is the emission alone.
\<close>

theorem color_on_hit:
  assumes "getHit world r 0.001 FLT_MAX = Some (index, h)"
  shows "color r world n s =
     (let material = getMaterial (getObject world index);
          emission = emit material 0 0 (Vec3 0 0 0)
      in if n < 25 then
           (case scatter material r h s of
              (Some (attenuation, scattered), s') \<Rightarrow>
                (emission + attenuation * fst (color scattered world (n + 1) s'),
                 snd (color scattered world (n + 1) s'))
            | (None, s') \<Rightarrow> (emission, s'))
         else (emission, s))"
  using color_hit_unfold[OF assms] by (simp add: Let_def)

theorem color_on_hit_witness:
  "getHit (ObjCollection_of litScene) downRay 0.001 FLT_MAX
     = Some (0, \<lparr>hit_t = 4, point = Vec3 0 0 1, normal = Vec3 0 0 1\<rparr>) \<and>
   color downRay (ObjCollection_of litScene) 0 0 = (Vec3 (24/10) (24/10) (24/10), 1)"
proof -
  have h1: "getHit (ObjCollection_of litScene) downRay 0.001 FLT_MAX
     = Some (0, \<lparr>hit_t = 4, point = Vec3 0 0 1, normal = Vec3 0 0 1\<rparr>)"
    by (simp add: collection_ops litScene_def sphere_ops vec3_ops downRay_def FLT_MAX_def)
  have h2: "getHit (ObjCollection_of litScene) \<lparr>origin = Vec3 0 0 1, direction = Vec3 0 0 1\<rparr>
       0.001 FLT_MAX
     = Some (1, \<lparr>hit_t = 8, point = Vec3 0 0 9, normal = Vec3 0 0 (- 1)\<rparr>)"
    by (simp add: collection_ops litScene_def sphere_ops vec3_ops FLT_MAX_def)
  show ?thesis
    using h1 color_on_hit[OF h1, of 0 0] color_on_hit[OF h2, of 1 1]
    by (simp add: collection_ops litScene_def Sphere_def backScatter_def DiffuseLight_def
          vec3_ops)
qed

text \<open>
  Claim C2. For every scene, ray, starting depth \<open>n\<close> and generator state, the call
  of \<open>color\<close> terminates (it lies in the well-founded part of the recursion), it makes
  no recursive call once the depth has reached the cap of 25, and the number of nested
  recursive calls is at most \<open>25 - n\<close> (a count, so zero from the cap on), whatever the
  scene.
\<close>

theorem color_recursion_bounded:
  "color_dom (r, world, n, s) \<and>
   int (color_depth r world n s) \<le> max 0 (25 - n) \<and>
   (25 \<le> n \<longrightarrow> color_depth r world n s = 0)"
  using color_terminates[of r world n s] color_depth_le[of r world n s]
    color_depth_cap[of n r world s]
  by auto

theorem color_recursion_bounded_witness:
  "(25::int) \<le> 25 \<and> color_depth upRay (ObjCollection_of facingScene) 25 0 = 0 \<and>
   color_depth upRay (ObjCollection_of facingScene) 0 0 = 25 \<and>
   int (color_depth upRay (ObjCollection_of facingScene) 0 0) \<le> max 0 (25 - 0)"
  using color_recursion_bounded[of upRay "ObjCollection_of facingScene" 25 0]
    color_recursion_bounded[of upRay "ObjCollection_of facingScene" 0 0]
    facing_depth
  by simp

text \<open>
  Claim C3. For every ray, depth and generator state: when the nearest-hit query reports
  no hit, \<open>color\<close> returns the background \<open>(0,0,0)\<close> and draws no random number; in
  particular this is the result for every ray and depth in a collection without
  primitives.
\<close>

theorem color_miss_black:
  "(getHit world r 0.001 FLT_MAX = None \<longrightarrow> color r world n s = (Vec3 0 0 0, s)) \<and>
   color r (ObjCollection_of []) n s = (Vec3 0 0 0, s)"
proof -
  have "getHit (ObjCollection_of []) r 0.001 FLT_MAX = None"
    by (simp add: ObjCollection_of_def nearestHit_def)
  then have "color r (ObjCollection_of []) n s = (Vec3 0 0 0, s)"
    by (rule color_miss)
  then show ?thesis
    using color_miss[of world r n s] by blast
qed

theorem color_miss_black_witness:
  "getHit (ObjCollection_of litScene) sideRay 0.001 FLT_MAX = None \<and>
   color sideRay (ObjCollection_of litScene) 7 3 = (Vec3 0 0 0, 3)"
proof -
  have m: "getHit (ObjCollection_of litScene) sideRay 0.001 FLT_MAX = None"
    by (simp add: collection_ops litScene_def sphere_ops vec3_ops sideRay_def FLT_MAX_def)
  show ?thesis
    using m color_miss_black[of "ObjCollection_of litScene" sideRay 7 3] by simp
qed




text \<open>
  Claim C9. Every nearest-hit query that \<open>color\<close> issues, at every depth, is on the
  interval with lower bound 0.001 and upper bound \<open>FLT_MAX\<close>: the radiance is the same
  for any two collections whose queries agree on this one interval and find the same
  materials there, whatever they answer on every other interval. Consequently, for the
  sphere collection, the hit that \<open>color\<close> works with lies at a distance above 0.001
  (and below \<open>FLT_MAX\<close>): an intersection at \<open>t \<le> 0.001\<close> is never used.
\<close>

theorem color_search_interval:
  "((\<forall>r'. getHit w' r' 0.001 FLT_MAX = getHit w r' 0.001 FLT_MAX) \<and>
    (\<forall>r' i h. getHit w r' 0.001 FLT_MAX = Some (i, h) \<longrightarrow>
        getMaterial (getObject w' i) = getMaterial (getObject w i))
      \<longrightarrow> color r w' n s = color r w n s) \<and>
   (getHit (ObjCollection_of objs) r2 0.001 FLT_MAX = Some (k, hk)
      \<longrightarrow> 0.001 < hit_t hk \<and> hit_t hk < FLT_MAX)"
proof (intro conjI impI)
  assume a: "(\<forall>r'. getHit w' r' 0.001 FLT_MAX = getHit w r' 0.001 FLT_MAX) \<and>
    (\<forall>r' i h. getHit w r' 0.001 FLT_MAX = Some (i, h) \<longrightarrow>
        getMaterial (getObject w' i) = getMaterial (getObject w i))"
  show "color r w' n s = color r w n s"
  proof (rule color_cong)
    show "\<forall>r. getHit w' r 0.001 FLT_MAX = getHit w r 0.001 FLT_MAX" using a by blast
    show "\<forall>r i h. getHit w r 0.001 FLT_MAX = Some (i, h) \<longrightarrow>
            scatter (getMaterial (getObject w' i)) = scatter (getMaterial (getObject w i))"
      using a by metis
    show "\<forall>r i h. getHit w r 0.001 FLT_MAX = Some (i, h) \<longrightarrow>
            emit (getMaterial (getObject w' i)) 0 0 (Vec3 0 0 0)
            = emit (getMaterial (getObject w i)) 0 0 (Vec3 0 0 0)"
      using a by metis
  qed
next
  assume "getHit (ObjCollection_of objs) r2 0.001 FLT_MAX = Some (k, hk)"
  then have "nearestHit objs r2 0.001 FLT_MAX = Some (k, hk)"
    by (simp add: ObjCollection_of_def)
  then have "hitSphere (objs ! k) r2 0.001 FLT_MAX = Some hk"
    using nearestHit_Some by blast
  then have b: "0.001 < hit_t hk \<and> hit_t hk < FLT_MAX"
    by (rule hitSphere_in_interval)
  from b show "0.001 < hit_t hk" by blast
  from b show "hit_t hk < FLT_MAX" by blast
qed

theorem color_search_interval_witness:
  "getHit (onlyFixedInterval (ObjCollection_of litScene)) downRay 0 FLT_MAX = None \<and>
   color downRay (onlyFixedInterval (ObjCollection_of litScene)) 0 0
     = color downRay (ObjCollection_of litScene) 0 0 \<and>
   getHit (ObjCollection_of litScene) \<lparr>origin = Vec3 0 0 1, direction = Vec3 0 0 1\<rparr>
       0.001 FLT_MAX
     = Some (1, \<lparr>hit_t = 8, point = Vec3 0 0 9, normal = Vec3 0 0 (- 1)\<rparr>) \<and>
   (0.001 :: real) < 8"
proof -
  let ?w = "ObjCollection_of litScene"
  have q: "\<forall>r'. getHit (onlyFixedInterval ?w) r' 0.001 FLT_MAX = getHit ?w r' 0.001 FLT_MAX"
    by (simp add: onlyFixedInterval_def)
  have m: "\<forall>r' i h. getHit ?w r' 0.001 FLT_MAX = Some (i, h) \<longrightarrow>
        getMaterial (getObject (onlyFixedInterval ?w) i) = getMaterial (getObject ?w i)"
    by (simp add: onlyFixedInterval_def)
  have z: "getHit (onlyFixedInterval ?w) downRay 0 FLT_MAX = None"
    by (simp add: onlyFixedInterval_def)
  have h2: "getHit ?w \<lparr>origin = Vec3 0 0 1, direction = Vec3 0 0 1\<rparr> 0.001 FLT_MAX
     = Some (1, \<lparr>hit_t = 8, point = Vec3 0 0 9, normal = Vec3 0 0 (- 1)\<rparr>)"
    by (simp add: collection_ops litScene_def sphere_ops vec3_ops FLT_MAX_def)
  show ?thesis
    using q m z h2
      color_search_interval[where w'="onlyFixedInterval ?w" and w="?w" and r=downRay
        and n=0 and s=0 and objs=litScene
        and ?r2.0="\<lparr>origin = Vec3 0 0 1, direction = Vec3 0 0 1\<rparr>" and k=1
        and hk="\<lparr>hit_t = 8, point = Vec3 0 0 9, normal = Vec3 0 0 (- 1)\<rparr>"]
    by simp
qed

text \<open>
  Claim C10. \<open>color\<close> asks the hit material for its emission at the surface coordinates
  \<open>u = 0\<close>, \<open>v = 0\<close> and the point \<open>(0,0,0)\<close> only, whatever the hit record is:
  the radiance is the same for two collections that differ only in what their materials
  emit at other arguments. So when the nearest hits of two rays carry the same material
  and the path ends at the hit (the depth has reached 25, or the scatter fails), both
  rays get the same radiance, namely that material's emission at \<open>0, 0, (0,0,0)\<close>,
  also when the two hits are at different places and the material's emission depends on
  the place.
\<close>

theorem color_emit_arguments:
  "((\<forall>r'. getHit w' r' 0.001 FLT_MAX = getHit w r' 0.001 FLT_MAX) \<and>
    (\<forall>r' i h. getHit w r' 0.001 FLT_MAX = Some (i, h) \<longrightarrow>
        scatter (getMaterial (getObject w' i)) = scatter (getMaterial (getObject w i)) \<and>
        emit (getMaterial (getObject w' i)) 0 0 (Vec3 0 0 0)
          = emit (getMaterial (getObject w i)) 0 0 (Vec3 0 0 0))
      \<longrightarrow> color r w' n s = color r w n s) \<and>
   (getHit w r1 0.001 FLT_MAX = Some (i1, h1) \<and>
    getHit w r2 0.001 FLT_MAX = Some (i2, h2) \<and>
    getMaterial (getObject w i1) = getMaterial (getObject w i2) \<and>
    (25 \<le> m \<or>
     fst (scatter (getMaterial (getObject w i1)) r1 h1 s1) = None \<and>
     fst (scatter (getMaterial (getObject w i2)) r2 h2 s2) = None)
      \<longrightarrow> fst (color r1 w m s1) = emit (getMaterial (getObject w i1)) 0 0 (Vec3 0 0 0) \<and>
          fst (color r2 w m s2) = fst (color r1 w m s1))"
proof (intro conjI impI)
  assume a: "(\<forall>r'. getHit w' r' 0.001 FLT_MAX = getHit w r' 0.001 FLT_MAX) \<and>
    (\<forall>r' i h. getHit w r' 0.001 FLT_MAX = Some (i, h) \<longrightarrow>
        scatter (getMaterial (getObject w' i)) = scatter (getMaterial (getObject w i)) \<and>
        emit (getMaterial (getObject w' i)) 0 0 (Vec3 0 0 0)
          = emit (getMaterial (getObject w i)) 0 0 (Vec3 0 0 0))"
  show "color r w' n s = color r w n s"
  proof (rule color_cong)
    show "\<forall>r. getHit w' r 0.001 FLT_MAX = getHit w r 0.001 FLT_MAX" using a by blast
    show "\<forall>r i h. getHit w r 0.001 FLT_MAX = Some (i, h) \<longrightarrow>
            scatter (getMaterial (getObject w' i)) = scatter (getMaterial (getObject w i))"
      using a by blast
    show "\<forall>r i h. getHit w r 0.001 FLT_MAX = Some (i, h) \<longrightarrow>
            emit (getMaterial (getObject w' i)) 0 0 (Vec3 0 0 0)
            = emit (getMaterial (getObject w i)) 0 0 (Vec3 0 0 0)"
      using a by blast
  qed
next
  assume b: "getHit w r1 0.001 FLT_MAX = Some (i1, h1) \<and>
    getHit w r2 0.001 FLT_MAX = Some (i2, h2) \<and>
    getMaterial (getObject w i1) = getMaterial (getObject w i2) \<and>
    (25 \<le> m \<or>
     fst (scatter (getMaterial (getObject w i1)) r1 h1 s1) = None \<and>
     fst (scatter (getMaterial (getObject w i2)) r2 h2 s2) = None)"
  then have g1: "getHit w r1 0.001 FLT_MAX = Some (i1, h1)"
    and g2: "getHit w r2 0.001 FLT_MAX = Some (i2, h2)"
    and same: "getMaterial (getObject w i1) = getMaterial (getObject w i2)"
    by simp_all
  have ends: "fst (color r1 w m s1) = emit (getMaterial (getObject w i1)) 0 0 (Vec3 0 0 0) \<and>
              fst (color r2 w m s2) = emit (getMaterial (getObject w i2)) 0 0 (Vec3 0 0 0)"
  proof (cases "m < 25")
    case False
    then show ?thesis by (simp add: color_cap[OF g1] color_cap[OF g2])
  next
    case True
    from b have "25 \<le> m \<or>
        fst (scatter (getMaterial (getObject w i1)) r1 h1 s1) = None \<and>
        fst (scatter (getMaterial (getObject w i2)) r2 h2 s2) = None"
      by blast
    with True have n1: "fst (scatter (getMaterial (getObject w i1)) r1 h1 s1) = None"
      and n2: "fst (scatter (getMaterial (getObject w i2)) r2 h2 s2) = None"
      by (elim disjE; simp)+
    obtain t1 where "scatter (getMaterial (getObject w i1)) r1 h1 s1 = (None, t1)"
      using n1 by (cases "scatter (getMaterial (getObject w i1)) r1 h1 s1") simp
    moreover obtain t2 where "scatter (getMaterial (getObject w i2)) r2 h2 s2 = (None, t2)"
      using n2 by (cases "scatter (getMaterial (getObject w i2)) r2 h2 s2") simp
    ultimately show ?thesis
      using True by (simp add: color_absorbed[OF g1] color_absorbed[OF g2])
  qed
  from ends show "fst (color r1 w m s1) = emit (getMaterial (getObject w i1)) 0 0 (Vec3 0 0 0)"
    by blast
  from ends same show "fst (color r2 w m s2) = fst (color r1 w m s1)"
    by simp
qed

theorem color_emit_arguments_witness:
  "emit positionLight 0 0 (Vec3 0 0 1) = Vec3 0 0 1 \<and>
   emit positionLight 0 0 (Vec3 1 0 0) = Vec3 1 0 0 \<and>
   color downRay (ObjCollection_of positionScene) 0 0
     = color downRay (ObjCollection_of darkScene) 0 0 \<and>
   fst (color downRay (ObjCollection_of positionScene) 0 0) = Vec3 0 0 0 \<and>
   fst (color leftRay (ObjCollection_of positionScene) 0 0)
     = fst (color downRay (ObjCollection_of positionScene) 0 0)"
proof -
  let ?p = "ObjCollection_of positionScene"
  let ?d = "ObjCollection_of darkScene"
  have q: "\<forall>r'. getHit ?p r' 0.001 FLT_MAX = getHit ?d r' 0.001 FLT_MAX"
    by (simp add: collection_ops positionScene_def darkScene_def sphere_ops)
  have mats: "scatter (getMaterial (getObject ?p i)) = scatter (getMaterial (getObject ?d i)) \<and>
        emit (getMaterial (getObject ?p i)) 0 0 (Vec3 0 0 0)
          = emit (getMaterial (getObject ?d i)) 0 0 (Vec3 0 0 0)"
    if "getHit ?d r' 0.001 FLT_MAX = Some (i, h)" for r' i h
  proof -
    from that have "nearestHit darkScene r' 0.001 FLT_MAX = Some (i, h)"
      by (simp add: ObjCollection_of_def)
    then have "i < length darkScene" using nearestHit_Some by blast
    then have "i = 0" by (simp add: darkScene_def)
    then show ?thesis
      by (simp add: collection_ops positionScene_def darkScene_def Sphere_def
            positionLight_def DiffuseLight_def)
  qed
  then have m: "\<forall>r' i h. getHit ?d r' 0.001 FLT_MAX = Some (i, h) \<longrightarrow>
        scatter (getMaterial (getObject ?p i)) = scatter (getMaterial (getObject ?d i)) \<and>
        emit (getMaterial (getObject ?p i)) 0 0 (Vec3 0 0 0)
          = emit (getMaterial (getObject ?d i)) 0 0 (Vec3 0 0 0)"
    by blast
  have g1: "getHit ?p downRay 0.001 FLT_MAX
     = Some (0, \<lparr>hit_t = 4, point = Vec3 0 0 1, normal = Vec3 0 0 1\<rparr>)"
    by (simp add: collection_ops positionScene_def sphere_ops vec3_ops downRay_def FLT_MAX_def)
  have g2: "getHit ?p leftRay 0.001 FLT_MAX
     = Some (0, \<lparr>hit_t = 4, point = Vec3 1 0 0, normal = Vec3 1 0 0\<rparr>)"
    by (simp add: collection_ops positionScene_def sphere_ops vec3_ops leftRay_def FLT_MAX_def)
  have sc: "fst (scatter (getMaterial (getObject ?p 0)) r h s) = None" for r h and s :: nat
    by (simp add: collection_ops positionScene_def Sphere_def positionLight_def)
  have e0: "emit (getMaterial (getObject ?p 0)) 0 0 (Vec3 0 0 0) = Vec3 0 0 0"
    by (simp add: collection_ops positionScene_def Sphere_def positionLight_def)
  have pl: "emit positionLight 0 0 (Vec3 0 0 1) = Vec3 0 0 1 \<and>
            emit positionLight 0 0 (Vec3 1 0 0) = Vec3 1 0 0"
    by (simp add: positionLight_def)
  have A: "color downRay ?p 0 0 = color downRay ?d 0 0"
    using q m color_emit_arguments[where w'="?p" and w="?d" and r=downRay and n=0 and s=0]
    by blast
  have B: "fst (color downRay ?p 0 0) = emit (getMaterial (getObject ?p 0)) 0 0 (Vec3 0 0 0) \<and>
          fst (color leftRay ?p 0 0) = fst (color downRay ?p 0 0)"
    using g1 g2 sc[of downRay _ 0] sc[of leftRay _ 0]
      color_emit_arguments[where w="?p" and ?r1.0=downRay and ?r2.0=leftRay and m=0
        and ?s1.0=0 and ?s2.0=0 and ?i1.0=0 and ?i2.0=0
        and ?h1.0="\<lparr>hit_t = 4, point = Vec3 0 0 1, normal = Vec3 0 0 1\<rparr>"
        and ?h2.0="\<lparr>hit_t = 4, point = Vec3 1 0 0, normal = Vec3 1 0 0\<rparr>"]
    by blast
  show ?thesis
    using A B e0 pl by simp
qed

section \<open>Sphere and collection: claims C4, C5\<close>

text \<open>
  Claim C4. For every ray, sphere (of positive radius) and interval, the sphere
  intersection test reports no hit when the discriminant of the quadratic is negative
  (and when the direction has length zero, where the quadratic has no roots); otherwise
  it accepts the smaller root if that lies inside the interval, else the larger root if
  that does, else it reports no hit. The smaller root is at most the larger one. An accepted hit carries its distance,
  the point of the ray at that distance, which lies on the sphere, and the normal
  \<open>(point - center) / radius\<close>. For the unit sphere at the origin and the ray from
  \<open>(0,0,5)\<close> with direction \<open>(0,0,-1)\<close>, on every interval that contains 4, the test
  returns the hit with \<open>t = 4\<close>, point \<open>(0,0,1)\<close> and normal \<open>(0,0,1)\<close>.
\<close>

theorem hitSphere_roots:
  assumes "0 < radius sp"
  shows "hitSphere sp r tMin tMax =
     (if discriminant sp r < 0 \<or> dot (direction r) (direction r) = 0 then None
      else if tMin < smallerRoot sp r \<and> smallerRoot sp r < tMax then
        Some \<lparr>hit_t = smallerRoot sp r, point = pointAt r (smallerRoot sp r),
              normal = divide_by (pointAt r (smallerRoot sp r) - center sp) (radius sp)\<rparr>
      else if tMin < largerRoot sp r \<and> largerRoot sp r < tMax then
        Some \<lparr>hit_t = largerRoot sp r, point = pointAt r (largerRoot sp r),
              normal = divide_by (pointAt r (largerRoot sp r) - center sp) (radius sp)\<rparr>
      else None) \<and>
   (0 \<le> discriminant sp r \<longrightarrow> smallerRoot sp r \<le> largerRoot sp r) \<and>
   (hitSphere sp r tMin tMax = Some h \<longrightarrow>
      tMin < hit_t h \<and> hit_t h < tMax \<and> point h = pointAt r (hit_t h) \<and>
      normal h = divide_by (point h - center sp) (radius sp) \<and>
      dot (point h - center sp) (point h - center sp) = radius sp * radius sp) \<and>
   (lo < 4 \<and> 4 < hi \<longrightarrow>
      hitSphere (Sphere m (Vec3 0 0 0) 1) downRay lo hi
        = Some \<lparr>hit_t = 4, point = Vec3 0 0 1, normal = Vec3 0 0 1\<rparr>)"
proof (intro conjI impI)
  show "hitSphere sp r tMin tMax =
     (if discriminant sp r < 0 \<or> dot (direction r) (direction r) = 0 then None
      else if tMin < smallerRoot sp r \<and> smallerRoot sp r < tMax then
        Some \<lparr>hit_t = smallerRoot sp r, point = pointAt r (smallerRoot sp r),
              normal = divide_by (pointAt r (smallerRoot sp r) - center sp) (radius sp)\<rparr>
      else if tMin < largerRoot sp r \<and> largerRoot sp r < tMax then
        Some \<lparr>hit_t = largerRoot sp r, point = pointAt r (largerRoot sp r),
              normal = divide_by (pointAt r (largerRoot sp r) - center sp) (radius sp)\<rparr>
      else None)"
    by (simp add: hitSphere_def hitAt_def)
next
  assume "0 \<le> discriminant sp r"
  then show "smallerRoot sp r \<le> largerRoot sp r" by (rule roots_ordered)
next
  assume h: "hitSphere sp r tMin tMax = Some h"
  from hitSphere_in_interval[OF h] show "tMin < hit_t h" by blast
  from hitSphere_in_interval[OF h] show "hit_t h < tMax" by blast
  from hitSphere_record[OF h] show "point h = pointAt r (hit_t h)" by blast
  from hitSphere_record[OF h]
  show "normal h = divide_by (point h - center sp) (radius sp)" by blast
  from h show "dot (point h - center sp) (point h - center sp) = radius sp * radius sp"
    by (rule hit_on_sphere)
next
  assume "lo < 4 \<and> 4 < hi"
  then show "hitSphere (Sphere m (Vec3 0 0 0) 1) downRay lo hi
        = Some \<lparr>hit_t = 4, point = Vec3 0 0 1, normal = Vec3 0 0 1\<rparr>"
    by (simp add: sphere_ops vec3_ops downRay_def)
qed

theorem hitSphere_roots_witness:
  "0 < radius (Sphere (DiffuseLight (Vec3 1 0 0) :: nat material) (Vec3 0 0 0) 1) \<and>
   (0.001 :: real) < 4 \<and> 4 < FLT_MAX \<and>
   hitSphere (Sphere (DiffuseLight (Vec3 1 0 0) :: nat material) (Vec3 0 0 0) 1) downRay
       0.001 FLT_MAX
     = Some \<lparr>hit_t = 4, point = Vec3 0 0 1, normal = Vec3 0 0 1\<rparr> \<and>
   discriminant (Sphere (DiffuseLight (Vec3 1 0 0) :: nat material) (Vec3 0 0 0) 1) downRay = 4 \<and>
   smallerRoot (Sphere (DiffuseLight (Vec3 1 0 0) :: nat material) (Vec3 0 0 0) 1) downRay = 4 \<and>
   largerRoot (Sphere (DiffuseLight (Vec3 1 0 0) :: nat material) (Vec3 0 0 0) 1) downRay = 6"
proof -
  let ?sp = "Sphere (DiffuseLight (Vec3 1 0 0) :: nat material) (Vec3 0 0 0) 1"
  have rad: "0 < radius ?sp" by (simp add: Sphere_def)
  have b: "(0.001 :: real) < 4 \<and> 4 < FLT_MAX" by (simp add: FLT_MAX_def)
  have d: "discriminant ?sp downRay = 4"
    by (simp add: sphere_ops vec3_ops downRay_def)
  have s: "smallerRoot ?sp downRay = 4"
    by (simp add: sphere_ops vec3_ops downRay_def)
  have l: "largerRoot ?sp downRay = 6"
    by (simp add: sphere_ops vec3_ops downRay_def)
  show ?thesis
    using rad b d s l
      hitSphere_roots[OF rad, where lo="0.001" and hi=FLT_MAX
        and m="DiffuseLight (Vec3 1 0 0) :: nat material"]
    by blast
qed

text \<open>
  Claim C5. For every ray, interval and finite list of spheres, the nearest-hit query of
  the collection reports no hit exactly when no sphere has an accepted intersection in
  the interval; otherwise it returns the index of a sphere of the collection together
  with that sphere's accepted hit record, whose distance is minimal among the accepted
  intersections of all spheres in the interval. For two overlapping spheres on one ray
  the result is the intersection with the smaller \<open>t\<close>.
\<close>

theorem getHit_nearest:
  "(getHit (ObjCollection_of objs) r tMin tMax = None \<longleftrightarrow>
      (\<forall>i<length objs. hitSphere (objs ! i) r tMin tMax = None)) \<and>
   (getHit (ObjCollection_of objs) r tMin tMax = Some (k, h) \<longrightarrow>
      k < length objs \<and> hitSphere (objs ! k) r tMin tMax = Some h \<and>
      (\<forall>j<length objs. \<forall>h'. hitSphere (objs ! j) r tMin tMax = Some h'
          \<longrightarrow> hit_t h \<le> hit_t h'))"
proof -
  have g: "getHit (ObjCollection_of objs) r tMin tMax = nearestHit objs r tMin tMax"
    by (simp add: ObjCollection_of_def)
  show ?thesis
    unfolding g using nearestHit_None_iff[of objs r tMin tMax] nearestHit_Some[of objs r tMin tMax k h]
    by blast
qed

theorem getHit_nearest_witness:
  "hitSphere (overlapScene ! 0) downRay 0.001 FLT_MAX
     = Some \<lparr>hit_t = 4, point = Vec3 0 0 1, normal = Vec3 0 0 1\<rparr> \<and>
   hitSphere (overlapScene ! 1) downRay 0.001 FLT_MAX
     = Some \<lparr>hit_t = 3, point = Vec3 0 0 2, normal = Vec3 0 0 1\<rparr> \<and>
   getHit (ObjCollection_of overlapScene) downRay 0.001 FLT_MAX
     = Some (1, \<lparr>hit_t = 3, point = Vec3 0 0 2, normal = Vec3 0 0 1\<rparr>) \<and>
   getHit (ObjCollection_of overlapScene) sideRay 0.001 FLT_MAX = None \<and>
   hitSphere (overlapScene ! 0) sideRay 0.001 FLT_MAX = None \<and>
   hitSphere (overlapScene ! 1) sideRay 0.001 FLT_MAX = None"
proof -
  have a: "hitSphere (overlapScene ! 0) downRay 0.001 FLT_MAX
     = Some \<lparr>hit_t = 4, point = Vec3 0 0 1, normal = Vec3 0 0 1\<rparr>"
    by (simp add: overlapScene_def sphere_ops vec3_ops downRay_def FLT_MAX_def)
  have n: "getHit (ObjCollection_of overlapScene) downRay 0.001 FLT_MAX
     = Some (1, \<lparr>hit_t = 3, point = Vec3 0 0 2, normal = Vec3 0 0 1\<rparr>)"
    by (simp add: collection_ops overlapScene_def sphere_ops vec3_ops downRay_def FLT_MAX_def)
  have m: "getHit (ObjCollection_of overlapScene) sideRay 0.001 FLT_MAX = None"
    by (simp add: collection_ops overlapScene_def sphere_ops vec3_ops sideRay_def FLT_MAX_def)
  have len: "length overlapScene = 2" by (simp add: overlapScene_def)
  from getHit_nearest[of overlapScene downRay "0.001" FLT_MAX 1
      "\<lparr>hit_t = 3, point = Vec3 0 0 2, normal = Vec3 0 0 1\<rparr>"] n
  have b: "hitSphere (overlapScene ! 1) downRay 0.001 FLT_MAX
     = Some \<lparr>hit_t = 3, point = Vec3 0 0 2, normal = Vec3 0 0 1\<rparr>"
    by blast
  from getHit_nearest[of overlapScene sideRay "0.001" FLT_MAX] m
  have all: "\<forall>i<length overlapScene. hitSphere (overlapScene ! i) sideRay 0.001 FLT_MAX = None"
    by blast
  have c0: "hitSphere (overlapScene ! 0) sideRay 0.001 FLT_MAX = None"
    using all len by simp
  have c1: "hitSphere (overlapScene ! 1) sideRay 0.001 FLT_MAX = None"
    using all len by simp
  from a b n m c0 c1 show ?thesis by blast
qed

section \<open>The driver: claim C8\<close>

text \<open>
  Claim C8. For every pixel, generator, camera and scene, the pixel loop takes 100
  samples, each the value that \<open>color\<close> returns at depth 0 for a camera ray. The byte
  stored for a channel is the driver's gamma step applied to the mean \<open>m\<close> of that
  channel over these samples, cut to its integral part; where \<open>m\<close> is non-negative this
  is \<open>(unsigned char)(min(255, 255 * sqrt(m)))\<close>. Red goes to \<open>image[y][x][2]\<close>,
  green to \<open>[1]\<close> and blue to \<open>[0]\<close>. So the average is taken over the raw values
  of the integrator, and the square root and the clamp are applied by the driver after
  averaging.
\<close>

theorem pixel_gamma_of_mean:
  "(let samples = sampleValues drand48 cam world x y 0 st;
        mean = (\<lambda>k. sum_list (map (\<lambda>c. component c k) samples) / real (length samples))
    in length samples = 100 \<and>
       (\<forall>c\<in>set samples. \<exists>r s'. c = fst (color r world 0 s')) \<and>
       fst (renderPixel drand48 cam world x y st) =
         [to_uchar (gammaCorrect (mean 2)),
          to_uchar (gammaCorrect (mean 1)),
          to_uchar (gammaCorrect (mean 0))] \<and>
       ((\<forall>k<3. 0 \<le> mean k) \<longrightarrow>
          fst (renderPixel drand48 cam world x y st) =
            [to_uchar (min 255 (255 * sqrt (mean 2))),
             to_uchar (min 255 (255 * sqrt (mean 1))),
             to_uchar (min 255 (255 * sqrt (mean 0)))]))"
proof -
  define samples where "samples = sampleValues drand48 cam world x y 0 st"
  define mean where
    "mean = (\<lambda>k. sum_list (map (\<lambda>c. component c k) samples) / real (length samples))"
  have len: "length samples = 100"
    using sampleValues_length[of drand48 cam world x y 0 st]
    by (simp add: samples_def ns_def)
  have col: "\<forall>c\<in>set samples. \<exists>r s'. c = fst (color r world 0 s')"
    unfolding samples_def by (intro ballI) (rule sampleValues_are_color)
  have acc: "component (fst (sampleLoop drand48 cam world x y 0 (Vec3 0 0 0) st)) k
               / real_of_int ns = mean k" for k
  proof -
    have z: "component (Vec3 0 0 0) k = 0"
      by (rule component_zero)
    have "component (fst (sampleLoop drand48 cam world x y 0 (Vec3 0 0 0) st)) k
            = sum_list (map (\<lambda>c. component c k) samples)"
      unfolding samples_def sampleLoop_sum z by simp
    then show ?thesis
      unfolding mean_def len by (simp add: ns_def)
  qed
  have raw: "fst (renderPixel drand48 cam world x y st) =
            [to_uchar (gammaCorrect (mean 2)),
             to_uchar (gammaCorrect (mean 1)),
             to_uchar (gammaCorrect (mean 0))]"
    unfolding renderPixel_bytes Let_def acc by (simp only:)
  have bytes: "fst (renderPixel drand48 cam world x y st) =
            [to_uchar (min 255 (255 * sqrt (mean 2))),
             to_uchar (min 255 (255 * sqrt (mean 1))),
             to_uchar (min 255 (255 * sqrt (mean 0)))]"
    if "\<forall>k<3. 0 \<le> mean k"
  proof -
    from that have "0 \<le> mean 0" "0 \<le> mean 1" "0 \<le> mean 2" by simp_all
    then have "gammaCorrect (mean 0) = min 255 (255 * sqrt (mean 0))"
      "gammaCorrect (mean 1) = min 255 (255 * sqrt (mean 1))"
      "gammaCorrect (mean 2) = min 255 (255 * sqrt (mean 2))"
      by (simp_all only: gammaCorrect_nonneg)
    then show ?thesis
      unfolding renderPixel_bytes Let_def acc by (simp only:)
  qed
  show ?thesis
    unfolding Let_def samples_def[symmetric]
  proof (intro conjI impI)
    show "length samples = 100" by (rule len)
    show "\<forall>c\<in>set samples. \<exists>r s'. c = fst (color r world 0 s')" by (rule col)
    show "fst (renderPixel drand48 cam world x y st) =
      [to_uchar (gammaCorrect
          (sum_list (map (\<lambda>c. component c 2) samples) / real (length samples))),
       to_uchar (gammaCorrect
          (sum_list (map (\<lambda>c. component c 1) samples) / real (length samples))),
       to_uchar (gammaCorrect
          (sum_list (map (\<lambda>c. component c 0) samples) / real (length samples)))]"
      using raw unfolding mean_def .
    assume "\<forall>k<3. 0 \<le> sum_list (map (\<lambda>c. component c k) samples) / real (length samples)"
    then have "\<forall>k<3. 0 \<le> mean k" unfolding mean_def .
    from bytes[OF this]
    show "fst (renderPixel drand48 cam world x y st) =
      [to_uchar (min 255 (255 * sqrt
          (sum_list (map (\<lambda>c. component c 2) samples) / real (length samples)))),
       to_uchar (min 255 (255 * sqrt
          (sum_list (map (\<lambda>c. component c 1) samples) / real (length samples)))),
       to_uchar (min 255 (255 * sqrt
          (sum_list (map (\<lambda>c. component c 0) samples) / real (length samples))))]"
      unfolding mean_def .
  qed
qed


theorem pixel_gamma_of_mean_witness:
  "fst (renderPixel halfRand fixedCamera (ObjCollection_of dimLight) 0 0 0)
     = [255, 255, 127]"
proof -
  let ?samples = "sampleValues halfRand fixedCamera (ObjCollection_of dimLight) 0 0 0 0"
  have sv: "?samples = replicate 100 (Vec3 (1/4) 1 4)"
    by (simp add: sampleValues_const[OF dim_sample] ns_def)
  have m0: "sum_list (map (\<lambda>c. component c 0) ?samples) / real (length ?samples) = 1/4"
    and m1: "sum_list (map (\<lambda>c. component c 1) ?samples) / real (length ?samples) = 1"
    and m2: "sum_list (map (\<lambda>c. component c 2) ?samples) / real (length ?samples) = 4"
    unfolding sv by (simp_all add: sum_list_replicate component_def)
  have nn: "\<forall>k<3. 0 \<le> sum_list (map (\<lambda>c. component c k) ?samples) / real (length ?samples)"
    unfolding sv by (simp add: sum_list_replicate component_def)
  have b0: "to_uchar (min 255 (255 * sqrt (1/4))) = 127"
    by (simp add: to_uchar_def real_sqrt_divide)
  have b1: "to_uchar (min 255 (255 * sqrt 1)) = 255"
    by (simp add: to_uchar_def)
  have b2: "to_uchar (min 255 (255 * sqrt 4)) = 255"
    by (simp add: to_uchar_def)
  show ?thesis
    using pixel_gamma_of_mean[of halfRand fixedCamera "ObjCollection_of dimLight" 0 0 0] nn
    unfolding Let_def m0 m1 m2 b0 b1 b2 by blast
qed

section \<open>The parallel loop: claim C7\<close>

text \<open>
  Claim C7 fails on the code. The claim: two runs of the render loop with the same
  scene, camera, seed and sample count store equal bytes for every pixel. The four
  threads of the loop draw from one generator, so the state from which a pixel is
  sampled depends on how far the other threads have got. Two runs with the same inputs
  and the same seed 0: in the first, thread 0 renders its first pixel \<open>(x, y) =
  (0, 1079)\<close> before thread 1 renders its first pixel \<open>(0, 809)\<close>; in the second,
  thread 1 is first. However the two runs go on, \<open>image[1079][0]\<close> holds
  \<open>[255, 255, 127]\<close> after the first and \<open>[0, 0, 0]\<close> after the second.
\<close>

theorem render_depends_on_schedule:
  "render stepRand panCamera (ObjCollection_of dimLight) 0 (0 # 1 # rest) (1079, 0)
     = Some [255, 255, 127] \<and>
   render stepRand panCamera (ObjCollection_of dimLight) 0 (1 # 0 # rest') (1079, 0)
     = Some [0, 0, 0]"
  using run_a[of rest] run_b[of rest'] by blast

end
